theory Spec2Isabelle
  imports Complex_Main
begin

section \<open>Data model\<close>

text \<open>
  The persisted schema (tables \<open>devices\<close>, \<open>sessions\<close>) and the client types \<open>Device\<close> and
  \<open>Session\<close>. JavaScript numbers and SQL \<open>numeric\<close> values are modelled as exact reals, so a
  sum, a product or a quotient is the mathematical one; timestamps are the milliseconds
  that \<open>Date.getTime()\<close> returns. A nullable column or a possibly empty string is an
  \<open>option\<close>.
\<close>

datatype device_type = external | internal | vip

datatype device_status = available | occupied | maintenance

datatype session_status = active | completed

record device =
  dev_id :: string
  dev_name :: string
  dev_type :: device_type
  dev_status :: device_status
  hourly_rate :: real
  extra_controller_rate :: real
  location :: string

record session =
  session_id :: string
  device_id :: string
  start_time :: "int option"
  end_time :: "int option"
  extra_controllers :: int
  session_status :: session_status
  total_cost :: real
  discount_amount :: real
  final_amount :: real
  customer_name :: "string option"
  created_at :: "int option"

text \<open>
  The tables of the sales and accounting schema. \<open>created_at\<close> has the default \<open>now()\<close> and
  is nullable; the amounts are \<open>NOT NULL\<close>. A sale that the client submits carries no
  \<open>created_at\<close>, and its \<open>discount_amount\<close> is \<open>None\<close> where the client's arithmetic
  yields \<open>NaN\<close>.
\<close>

datatype product_category = market | coffee

datatype expense_category = rent | electricity | water | other

record product =
  product_id :: string
  product_name :: string
  price :: real
  stock :: int
  category :: product_category

record sale =
  sale_product_id :: string
  sale_quantity :: int
  unit_price :: real
  total_price :: real
  sale_discount_amount :: "real option"
  sale_final_amount :: real
  sale_created_at :: "int option"

record expense =
  description :: string
  amount :: real
  expense_category :: expense_category
  expense_date :: int

record daily_summary =
  summary_date :: int
  sessions_revenue :: real
  sales_revenue :: real
  expenses_total :: real
  discounts_total :: real
  net_income :: real

text \<open>The storage: the rows of the five tables the operations below read and write.\<close>

record storage =
  db_devices :: "device list"
  db_sessions :: "session list"
  db_sales :: "sale list"
  db_expenses :: "expense list"
  db_daily_summaries :: "daily_summary list"

section \<open>Session cost calculator\<close>

text \<open>\<open>Math.floor\<close>, \<open>Math.round\<close> (ties go up) and the remainder operator \<open>%\<close>, whose result
  has the sign of the dividend.\<close>

definition Math_floor :: "real \<Rightarrow> int" where
  "Math_floor x = \<lfloor>x\<rfloor>"

definition Math_round :: "real \<Rightarrow> int" where
  "Math_round x = \<lfloor>x + 1 / 2\<rfloor>"

definition js_rem :: "real \<Rightarrow> real \<Rightarrow> real" where
  "js_rem a b = a - b * of_int (if 0 \<le> a / b then \<lfloor>a / b\<rfloor> else \<lceil>a / b\<rceil>)"

text \<open>
  \<open>calculateSessionCost\<close> of the device management page. It reads, besides its two
  arguments, the page state \<open>isOpenSession\<close> and \<open>expiredSessions\<close> and the clock
  (\<open>new Date()\<close>, here \<open>now\<close>). \<open>effective_end\<close> is the choice of \<open>end\<close> at its head.
\<close>

definition effective_end :: "bool \<Rightarrow> string set \<Rightarrow> int \<Rightarrow> session \<Rightarrow> int" where
  "effective_end isOpenSession expiredSessions now session =
     (if \<not> isOpenSession \<and> end_time session \<noteq> None \<and> session_id session \<in> expiredSessions
      then the (end_time session)
      else (let end0 = (case end_time session of Some e \<Rightarrow> e | None \<Rightarrow> now)
            in if \<not> isOpenSession \<and> end_time session \<noteq> None \<and> now > the (end_time session)
               then the (end_time session) else end0))"

definition calculateSessionCost ::
    "bool \<Rightarrow> string set \<Rightarrow> int \<Rightarrow> session \<Rightarrow> device \<Rightarrow> real" where
  "calculateSessionCost isOpenSession expiredSessions now session device =
     (case start_time session of
        None \<Rightarrow> 0
      | Some start \<Rightarrow>
          (let end = effective_end isOpenSession expiredSessions now session;
               totalMinutes = of_int (end - start) / (1000 * 60);
               baseCost =
                 (if isOpenSession then totalMinutes * 0.025
                  else (let hours = Math_floor (totalMinutes / 60);
                            remainingMinutes = js_rem totalMinutes 60
                        in of_int hours * 1.5 + remainingMinutes * 0.025));
               hours = totalMinutes / 60;
               extraControllersCost =
                 of_int (extra_controllers session) * extra_controller_rate device * hours
           in of_int (Math_round ((baseCost + extraControllersCost) * 100)) / 100))"

text \<open>The elapsed minutes between two timestamps, as \<open>totalMinutes\<close> above.\<close>

definition minutes_between :: "int \<Rightarrow> int \<Rightarrow> real" where
  "minutes_between start end = of_int (end - start) / (1000 * 60)"

text \<open>
  The body of the one-second interval for one entry of \<open>activeSessions\<close> whose device is
  found: a fixed-duration session that has reached its end is added to \<open>expiredSessions\<close>
  and left as it is; a session that is not expired gets its cost recomputed. The result
  is the entry and the set of expired sessions afterwards (the write of the same two
  fields to storage only logs its failure).
\<close>

definition costUpdateTick ::
    "bool \<Rightarrow> string set \<Rightarrow> int \<Rightarrow> device \<Rightarrow> session \<Rightarrow> session \<times> string set" where
  "costUpdateTick isOpenSession expiredSessions now device session =
     (if session_status session = active then
        (if \<not> isOpenSession \<and> end_time session \<noteq> None
            \<and> now \<ge> the (end_time session) \<and> session_id session \<notin> expiredSessions
         then (session, insert (session_id session) expiredSessions)
         else if session_id session \<notin> expiredSessions then
           (let newCost = calculateSessionCost isOpenSession expiredSessions now session device
            in if newCost \<noteq> total_cost session
               then (session\<lparr>total_cost := newCost,
                       final_amount := newCost * (1 - discount_amount session / 100)\<rparr>,
                     expiredSessions)
               else (session, expiredSessions))
         else (session, expiredSessions))
      else (session, expiredSessions))"

subsection \<open>The billing rule as the specification words it\<close>

text \<open>
  Rounding to two decimals, and the two billing modes written from the specification:
  the per-minute rate is the owning device's \<open>hourly_rate / 60\<close>.
\<close>

definition round2 :: "real \<Rightarrow> real" where
  "round2 x = of_int (Math_round (x * 100)) / 100"

definition spec_surcharge :: "real \<Rightarrow> int \<Rightarrow> device \<Rightarrow> real" where
  "spec_surcharge elapsed_minutes extra device =
     of_int extra * extra_controller_rate device * (elapsed_minutes / 60)"

definition spec_open_cost :: "real \<Rightarrow> int \<Rightarrow> device \<Rightarrow> real" where
  "spec_open_cost elapsed_minutes extra device =
     round2 (elapsed_minutes * (hourly_rate device / 60)
             + spec_surcharge elapsed_minutes extra device)"

definition spec_fixed_cost :: "real \<Rightarrow> int \<Rightarrow> device \<Rightarrow> real" where
  "spec_fixed_cost elapsed_minutes extra device =
     round2 (of_int \<lfloor>elapsed_minutes / 60\<rfloor> * hourly_rate device
             + (elapsed_minutes - 60 * of_int \<lfloor>elapsed_minutes / 60\<rfloor>) * (hourly_rate device / 60)
             + spec_surcharge elapsed_minutes extra device)"

section \<open>Session lifecycle\<close>

subsection \<open>Page state\<close>

text \<open>
  The state of the device management page that the session operations read and write
  (the hooks \<open>devices\<close>, \<open>activeSessions\<close>, \<open>isOpenSession\<close>, ...). The modal flags and the
  extra-time read-out only drive the display and are left out. An entry of the sales
  page's cart is a \<open>cart_item\<close>.
\<close>

record page =
  devices :: "device list"
  activeSessions :: "string \<rightharpoonup> session"
  isOpenSession :: bool
  sessionDuration :: int
  customerName :: string
  discount :: real
  expiredSessions :: "string set"
  error :: "string option"
  isStartingSession :: bool
  isEndingSession :: bool

record cart_item =
  product :: product
  quantity :: int

subsection \<open>Storage writes\<close>

text \<open>
  \<open>set_status\<close> is \<open>UPDATE devices SET status = st WHERE id = did\<close>. The three writes the
  page issues, when they succeed: the update of a device's status, the insert of a session
  row and the update of the session rows with a given id by a payload. Only the page
  writes the status of a device: the one script that would create a trigger for it on
  \<open>sessions\<close> (migration "Add Additional Policies and Indexes") does not run, its
  \<open>CREATE POLICY IF NOT EXISTS\<close> not being PostgreSQL, so storage has no such trigger.
  (The summary triggers on \<open>sessions\<close> touch no device and no session row and are not
  repeated here; a write that a trigger makes fail is a failed write.)
\<close>

definition set_status :: "string \<Rightarrow> device_status \<Rightarrow> device list \<Rightarrow> device list" where
  "set_status did st ds = map (\<lambda>d. if dev_id d = did then d\<lparr>dev_status := st\<rparr> else d) ds"

definition storage_update_device :: "string \<Rightarrow> device_status \<Rightarrow> storage \<Rightarrow> storage" where
  "storage_update_device did st db = db\<lparr>db_devices := set_status did st (db_devices db)\<rparr>"

definition storage_insert_session :: "session \<Rightarrow> storage \<Rightarrow> storage" where
  "storage_insert_session row db = db\<lparr>db_sessions := db_sessions db @ [row]\<rparr>"

definition storage_update_session ::
    "string \<Rightarrow> (session \<Rightarrow> session) \<Rightarrow> storage \<Rightarrow> storage" where
  "storage_update_session sid f db =
     db\<lparr>db_sessions := map (\<lambda>r. if session_id r = sid then f r else r) (db_sessions db)\<rparr>"

subsection \<open>startSession and endSession\<close>

text \<open>
  Both operations act on the page state and the storage. A write to storage may fail:
  the flags \<open>ok_device\<close>, \<open>ok_insert\<close>, \<open>ok_revert\<close>, \<open>ok_session\<close> say whether the
  corresponding request succeeds. A failed write leaves the storage as it is and makes
  the operation throw; the \<open>catch\<close> block of \<open>startSession\<close> sets the error message (here
  in English) and asks storage to set the device back to \<open>available\<close>, whatever was thrown.
  \<open>startTime\<close> is the clock at the start of the session, \<open>now\<close> the clock when the initial
  cost is computed and the row is stored, \<open>new_id\<close> the id that storage gives the row.
\<close>

definition startSession ::
    "string \<Rightarrow> int \<Rightarrow> int \<Rightarrow> string \<Rightarrow> bool \<Rightarrow> bool \<Rightarrow> bool
       \<Rightarrow> page \<times> storage \<Rightarrow> page \<times> storage" where
  "startSession deviceId startTime now new_id ok_device ok_insert ok_revert = (\<lambda>(c, db).
     if isStartingSession c then (c, db)
     else
       (let failed = (\<lambda>db'. (c\<lparr>error := Some ''error starting session''\<rparr>,
                             if ok_revert then storage_update_device deviceId available db' else db'))
        in case find (\<lambda>d. dev_id d = deviceId) (devices c) of
             None \<Rightarrow> failed db
           | Some device \<Rightarrow>
               if dev_status device \<noteq> available then failed db
               else
                 (let endTime = (if isOpenSession c then None
                                else Some (startTime + sessionDuration c * 60 * 1000))
                  in if \<not> ok_device then failed db
                     else
                       (let db1 = storage_update_device deviceId occupied db;
                            initialCost = calculateSessionCost (isOpenSession c) (expiredSessions c) now
                              \<lparr>session_id = [], device_id = deviceId, start_time = Some startTime,
                               end_time = endTime, extra_controllers = 0, session_status = active,
                               total_cost = 0, discount_amount = 0, final_amount = 0,
                               customer_name = (if customerName c = [] then None else Some (customerName c)),
                               created_at = None\<rparr> device
                        in if \<not> ok_insert then failed db1
                           else
                             (let sessionData =
                                    \<lparr>session_id = new_id, device_id = deviceId,
                                     start_time = Some startTime, end_time = endTime,
                                     extra_controllers = 0, session_status = active,
                                     total_cost = initialCost, discount_amount = 0,
                                     final_amount = initialCost,
                                     customer_name = (if customerName c = [] then None else Some (customerName c)),
                                     created_at = Some now\<rparr>;
                                  db2 = storage_insert_session sessionData db1
                              in (c\<lparr>error := None,
                                    devices := set_status deviceId occupied (devices c),
                                    activeSessions := (activeSessions c)(deviceId \<mapsto> sessionData),
                                    customerName := [], sessionDuration := 60,
                                    isOpenSession := True\<rparr>, db2))))))"

text \<open>The payload of the update that \<open>endSession\<close> sends for the session row.\<close>

definition complete_session ::
    "int \<Rightarrow> real \<Rightarrow> real \<Rightarrow> real \<Rightarrow> session \<Rightarrow> session" where
  "complete_session endTime totalCost discountAmount finalAmount r =
     r\<lparr>end_time := Some endTime, session_status := completed, total_cost := totalCost,
       discount_amount := discountAmount, final_amount := finalAmount\<rparr>"

definition endSession ::
    "string \<Rightarrow> int \<Rightarrow> bool \<Rightarrow> bool \<Rightarrow> page \<times> storage \<Rightarrow> page \<times> storage" where
  "endSession deviceId now ok_session ok_device = (\<lambda>(c, db).
     if isEndingSession c then (c, db)
     else
       (case (activeSessions c deviceId, find (\<lambda>d. dev_id d = deviceId) (devices c)) of
          (Some session, Some device) \<Rightarrow>
            (let endTime = now;
                 totalCost = calculateSessionCost (isOpenSession c) (expiredSessions c) now
                               (session\<lparr>end_time := Some endTime\<rparr>) device;
                 discountAmount = (discount c / 100) * totalCost;
                 finalAmount = totalCost - discountAmount
             in if \<not> ok_session then (c\<lparr>error := Some ''error ending session''\<rparr>, db)
                else
                  (let db1 = storage_update_session (session_id session)
                               (complete_session endTime totalCost discountAmount finalAmount) db
                   in if \<not> ok_device then (c\<lparr>error := Some ''error ending session''\<rparr>, db1)
                      else
                        (let db2 = storage_update_device deviceId available db1
                         in (c\<lparr>activeSessions := (activeSessions c)(deviceId := None),
                               devices := set_status deviceId available (devices c),
                               discount := 0,
                               expiredSessions := expiredSessions c - {session_id session}\<rparr>,
                             db2))))
        | _ \<Rightarrow> (c, db)))"

subsection \<open>One active session per device\<close>

text \<open>
  The invariant of the data model, on the storage: a device row that is occupied has
  exactly one active session, any other device row has none.
\<close>

definition active_sessions_of :: "string \<Rightarrow> storage \<Rightarrow> session list" where
  "active_sessions_of did db =
     filter (\<lambda>r. device_id r = did \<and> session_status r = active) (db_sessions db)"

definition one_active_session_per_device :: "storage \<Rightarrow> bool" where
  "one_active_session_per_device db =
     (\<forall>d \<in> set (db_devices db).
        length (active_sessions_of (dev_id d) db) = (if dev_status d = occupied then 1 else 0))"

section \<open>Checkout\<close>

text \<open>
  \<open>calculateTotal\<close> of the sales page and the rows that \<open>handleCheckout\<close> submits to the
  \<open>sales\<close> table, one per cart entry, for the discount percentage \<open>disc\<close> of the page.
  With an empty subtotal the quotient \<open>discountAmount / subtotal\<close> is \<open>0 / 0\<close>.
\<close>

definition calculateTotal :: "real \<Rightarrow> cart_item list \<Rightarrow> real \<times> real \<times> real" where
  "calculateTotal disc cart =
     (let subtotal = foldl (\<lambda>sum item. sum + price (product item) * of_int (quantity item)) 0 cart;
          discountAmount = (disc / 100) * subtotal
      in (subtotal, discountAmount, subtotal - discountAmount))"

definition handleCheckout_sales :: "real \<Rightarrow> cart_item list \<Rightarrow> sale list" where
  "handleCheckout_sales disc cart =
     (case calculateTotal disc cart of
        (subtotal, discountAmount, _) \<Rightarrow>
          map (\<lambda>item.
                \<lparr>sale_product_id = product_id (product item),
                 sale_quantity = quantity item,
                 unit_price = price (product item),
                 total_price = price (product item) * of_int (quantity item),
                 sale_discount_amount =
                   (if subtotal = 0 then None
                    else Some ((discountAmount / subtotal)
                               * (price (product item) * of_int (quantity item)))),
                 sale_final_amount =
                   (price (product item) * of_int (quantity item)) * (1 - disc / 100),
                 sale_created_at = None\<rparr>) cart)"

text \<open>The \<open>NOT NULL\<close> and \<open>CHECK\<close> constraints of the \<open>sales\<close> table on a submitted row.\<close>

definition sales_check :: "sale \<Rightarrow> bool" where
  "sales_check r = (0 < sale_quantity r \<and> 0 \<le> unit_price r \<and> 0 \<le> total_price r
     \<and> sale_discount_amount r \<noteq> None \<and> 0 \<le> sale_final_amount r)"

section \<open>Daily summary\<close>

text \<open>
  The SQL that \<open>calculate_daily_summary\<close> uses: \<open>DATE\<close> of a timestamp (days since the
  epoch, in UTC), equality (true only between two non-null values), \<open>SUM\<close> (which skips
  nulls and is null over no value), \<open>COALESCE\<close> of two nullable values and \<open>COALESCE(x, 0)\<close>,
  a column of a row that the outer join may have padded with nulls, and the full outer
  join of \<open>sales\<close> and \<open>sessions\<close> on the creation date: the matching pairs, then the
  sales without a match, then the sessions without a match.
\<close>

definition sql_date :: "int option \<Rightarrow> int option" where
  "sql_date t = map_option (\<lambda>ms. ms div 86400000) t"

definition sql_eq :: "int option \<Rightarrow> int option \<Rightarrow> bool" where
  "sql_eq a b = (case a of None \<Rightarrow> False | Some x \<Rightarrow> (case b of None \<Rightarrow> False | Some y \<Rightarrow> x = y))"

definition sql_sum :: "real option list \<Rightarrow> real option" where
  "sql_sum xs = (case List.map_filter (\<lambda>x. x) xs of [] \<Rightarrow> None | y # ys \<Rightarrow> Some (sum_list (y # ys)))"

definition sql_coalesce :: "'a option \<Rightarrow> 'a option \<Rightarrow> 'a option" where
  "sql_coalesce x y = (case x of Some v \<Rightarrow> Some v | None \<Rightarrow> y)"

definition sql_coalesce0 :: "real option \<Rightarrow> real" where
  "sql_coalesce0 x = (case x of Some v \<Rightarrow> v | None \<Rightarrow> 0)"

definition sql_column :: "('r \<Rightarrow> 'a option) \<Rightarrow> 'r option \<Rightarrow> 'a option" where
  "sql_column f row = (case row of Some r \<Rightarrow> f r | None \<Rightarrow> None)"

definition full_outer_join ::
    "sale list \<Rightarrow> session list \<Rightarrow> (sale option \<times> session option) list" where
  "full_outer_join sales sessions =
     concat (map (\<lambda>s. map (\<lambda>sess. (Some s, Some sess))
                        (filter (\<lambda>sess. sql_eq (sql_date (created_at sess))
                                               (sql_date (sale_created_at s))) sessions)) sales)
     @ map (\<lambda>s. (Some s, None))
         (filter (\<lambda>s. \<not> list_ex (\<lambda>sess. sql_eq (sql_date (created_at sess))
                                               (sql_date (sale_created_at s))) sessions) sales)
     @ map (\<lambda>sess. (None, Some sess))
         (filter (\<lambda>sess. \<not> list_ex (\<lambda>s. sql_eq (sql_date (created_at sess))
                                               (sql_date (sale_created_at s))) sales) sessions)"

text \<open>\<open>INSERT ... ON CONFLICT (date) DO UPDATE\<close> on \<open>daily_summaries\<close>.\<close>

definition upsert_daily_summary ::
    "daily_summary \<Rightarrow> daily_summary list \<Rightarrow> daily_summary list" where
  "upsert_daily_summary new rows =
     (if list_ex (\<lambda>r. summary_date r = summary_date new) rows
      then map (\<lambda>r. if summary_date r = summary_date new
                     then r\<lparr>sessions_revenue := sessions_revenue new,
                            sales_revenue := sales_revenue new,
                            expenses_total := expenses_total new,
                            discounts_total := discounts_total new,
                            net_income := net_income new\<rparr>
                     else r) rows
      else rows @ [new])"

text \<open>
  The four \<open>SELECT ... INTO\<close> statements of the function, and the function. \<open>where_date\<close>
  is the \<open>WHERE\<close> clause of the discount query, on a row of the join.
\<close>

definition where_date :: "int \<Rightarrow> sale option \<times> session option \<Rightarrow> bool" where
  "where_date date = (\<lambda>(s, sess).
     sql_eq (sql_date (sql_coalesce (sql_column sale_created_at s) (sql_column created_at sess)))
            (Some date))"

definition select_sessions_rev :: "int \<Rightarrow> storage \<Rightarrow> real" where
  "select_sessions_rev date db =
     sql_coalesce0 (sql_sum (map (\<lambda>r. Some (final_amount r))
       (filter (\<lambda>r. sql_eq (sql_date (created_at r)) (Some date) \<and> session_status r = completed)
          (db_sessions db))))"

definition select_sales_rev :: "int \<Rightarrow> storage \<Rightarrow> real" where
  "select_sales_rev date db =
     sql_coalesce0 (sql_sum (map (\<lambda>r. Some (sale_final_amount r))
       (filter (\<lambda>r. sql_eq (sql_date (sale_created_at r)) (Some date)) (db_sales db))))"

definition select_expenses_tot :: "int \<Rightarrow> storage \<Rightarrow> real" where
  "select_expenses_tot date db =
     sql_coalesce0 (sql_sum (map (\<lambda>r. Some (amount r))
       (filter (\<lambda>r. expense_date r = date) (db_expenses db))))"

definition select_discounts_tot :: "int \<Rightarrow> storage \<Rightarrow> real" where
  "select_discounts_tot date db =
     (let joined = filter (where_date date) (full_outer_join (db_sales db) (db_sessions db))
      in sql_coalesce0 (sql_sum (map (\<lambda>(s, sess).
             map_option (\<lambda>s. total_price s - sale_final_amount s) s) joined))
         + sql_coalesce0 (sql_sum (map (\<lambda>(s, sess).
             map_option (\<lambda>sess. total_cost sess - final_amount sess) sess) joined)))"

definition calculate_daily_summary :: "int \<Rightarrow> storage \<Rightarrow> storage" where
  "calculate_daily_summary date db =
     (let sessions_rev = select_sessions_rev date db;
          sales_rev = select_sales_rev date db;
          expenses_tot = select_expenses_tot date db;
          discounts_tot = select_discounts_tot date db;
          net_inc = sessions_rev + sales_rev - expenses_tot
      in db\<lparr>db_daily_summaries :=
              upsert_daily_summary
                \<lparr>summary_date = date, sessions_revenue = sessions_rev,
                 sales_revenue = sales_rev, expenses_total = expenses_tot,
                 discounts_total = discounts_tot, net_income = net_inc\<rparr>
                (db_daily_summaries db)\<rparr>)"

text \<open>The sales and the sessions created on a date.\<close>

definition on_date_sales :: "int \<Rightarrow> storage \<Rightarrow> sale list" where
  "on_date_sales date db = filter (\<lambda>r. sql_date (sale_created_at r) = Some date) (db_sales db)"

definition on_date_sessions :: "int \<Rightarrow> storage \<Rightarrow> session list" where
  "on_date_sessions date db = filter (\<lambda>r. sql_date (created_at r) = Some date) (db_sessions db)"

text \<open>
  The total of discounts as the specification words it: every sale and every session
  created on the date contributes its own discount once.
\<close>

definition spec_discounts_total :: "int \<Rightarrow> storage \<Rightarrow> real" where
  "spec_discounts_total date db =
     sum_list (map (\<lambda>r. total_price r - sale_final_amount r)
        (filter (\<lambda>r. sql_date (sale_created_at r) = Some date) (db_sales db)))
     + sum_list (map (\<lambda>r. total_cost r - final_amount r)
        (filter (\<lambda>r. sql_date (created_at r) = Some date) (db_sessions db)))"

section \<open>Example rows\<close>

text \<open>Three of the devices the schema migration inserts, and sessions on them that
  start at time 0.\<close>

definition external_device :: device where
  "external_device = \<lparr>dev_id = ''external-1'', dev_name = ''external 1'', dev_type = external,
     dev_status = occupied, hourly_rate = 1.5, extra_controller_rate = 0.25,
     location = ''external''\<rparr>"

definition internal_device :: device where
  "internal_device = \<lparr>dev_id = ''internal-1'', dev_name = ''internal'', dev_type = internal,
     dev_status = occupied, hourly_rate = 2, extra_controller_rate = 0.25,
     location = ''internal''\<rparr>"

definition vip_device :: device where
  "vip_device = \<lparr>dev_id = ''vip-1'', dev_name = ''VIP'', dev_type = vip,
     dev_status = occupied, hourly_rate = 3, extra_controller_rate = 0, location = ''vip''\<rparr>"

definition open_session :: "string \<Rightarrow> string \<Rightarrow> int \<Rightarrow> session" where
  "open_session sid did extra = \<lparr>session_id = sid, device_id = did, start_time = Some 0,
     end_time = None, extra_controllers = extra, session_status = active, total_cost = 0,
     discount_amount = 0, final_amount = 0, customer_name = None, created_at = Some 0\<rparr>"

definition fixed_session :: "string \<Rightarrow> string \<Rightarrow> int \<Rightarrow> session" where
  "fixed_session sid did minutes = (open_session sid did 0)\<lparr>end_time := Some (minutes * 60 * 1000)\<rparr>"

text \<open>
  Pages and storages: \<open>ex_page\<close> and \<open>ex_storage\<close> hold the first external device, occupied
  by an open-ended session with one extra controller, with a discount of 10 percent
  entered; \<open>fresh_page\<close> and \<open>fresh_storage\<close> hold the same device, available and without
  a session. \<open>busy_day\<close> has two sales and one completed session created on day 0.
\<close>

definition initial_page :: "device list \<Rightarrow> page" where
  "initial_page ds = \<lparr>devices = ds, activeSessions = Map.empty, isOpenSession = True,
     sessionDuration = 60, customerName = [], discount = 0, expiredSessions = {},
     error = None, isStartingSession = False, isEndingSession = False\<rparr>"

definition ex_page :: page where
  "ex_page = (initial_page [external_device])
     \<lparr>activeSessions := [''external-1'' \<mapsto> open_session ''s1'' ''external-1'' 1],
      discount := 10\<rparr>"

definition ex_storage :: storage where
  "ex_storage = \<lparr>db_devices = [external_device],
     db_sessions = [open_session ''s1'' ''external-1'' 1], db_sales = [], db_expenses = [],
     db_daily_summaries = []\<rparr>"

definition free_device :: device where
  "free_device = external_device\<lparr>dev_status := available\<rparr>"

definition fresh_page :: page where
  "fresh_page = initial_page [free_device]"

definition fresh_storage :: storage where
  "fresh_storage = \<lparr>db_devices = [free_device], db_sessions = [], db_sales = [],
     db_expenses = [], db_daily_summaries = []\<rparr>"

definition cola :: product where
  "cola = \<lparr>product_id = ''cola'', product_name = ''cola'', price = 0.5, stock = 100,
     category = market\<rparr>"

definition discounted_sale :: "string \<Rightarrow> real \<Rightarrow> real \<Rightarrow> int \<Rightarrow> sale" where
  "discounted_sale pid tot fin created =
     \<lparr>sale_product_id = pid, sale_quantity = 1, unit_price = tot, total_price = tot,
      sale_discount_amount = Some (tot - fin), sale_final_amount = fin,
      sale_created_at = Some created\<rparr>"

definition busy_day :: storage where
  "busy_day = \<lparr>db_devices = [free_device],
     db_sessions = [(open_session ''s1'' ''external-1'' 0)
        \<lparr>end_time := Some 3600000, session_status := completed, total_cost := 10,
         discount_amount := 2, final_amount := 8\<rparr>],
     db_sales = [discounted_sale ''p1'' 10 9 1000, discounted_sale ''p2'' 10 9 2000],
     db_expenses = [], db_daily_summaries = []\<rparr>"

text \<open>
  \<open>expired_page\<close> and \<open>expired_storage\<close> hold the external device with a fixed session of 60
  minutes that has expired: the page is in fixed-duration mode, has the session in
  \<open>expiredSessions\<close> and shows its cost of 1.50.
\<close>

definition expired_session :: session where
  "expired_session = (fixed_session ''s5'' ''external-1'' 60)\<lparr>total_cost := 1.5, final_amount := 1.5\<rparr>"

definition expired_page :: page where
  "expired_page = (initial_page [external_device])
     \<lparr>activeSessions := [''external-1'' \<mapsto> expired_session], isOpenSession := False,
      expiredSessions := {''s5''}\<rparr>"

definition expired_storage :: storage where
  "expired_storage = \<lparr>db_devices = [external_device], db_sessions = [expired_session],
     db_sales = [], db_expenses = [], db_daily_summaries = []\<rparr>"

lemmas example_defs = ex_page_def ex_storage_def fresh_page_def fresh_storage_def initial_page_def
  free_device_def external_device_def open_session_def

lemmas storage_defs = storage_update_device_def storage_insert_session_def
  storage_update_session_def set_status_def complete_session_def

lemmas cost_defs = Let_def calculateSessionCost_def effective_end_def Math_round_def
  Math_floor_def js_rem_def

section \<open>Properties of the cost calculator\<close>

lemma effective_end_Some: "end_time s = Some e \<Longrightarrow> effective_end io ex now s = e"
  by (simp add: effective_end_def)

lemma effective_end_None: "end_time s = None \<Longrightarrow> effective_end io ex now s = now"
  by (simp add: effective_end_def)

lemma calculateSessionCost_open:
  assumes "start_time s = Some start"
  shows "calculateSessionCost True ex now s d =
     of_int (Math_round ((minutes_between start (effective_end True ex now s) * 0.025
        + of_int (extra_controllers s) * extra_controller_rate d
          * (minutes_between start (effective_end True ex now s) / 60)) * 100)) / 100"
  unfolding calculateSessionCost_def minutes_between_def Let_def using assms by simp

lemma calculateSessionCost_timed:
  assumes "start_time s = Some start"
  shows "calculateSessionCost False ex now s d =
     of_int (Math_round
       ((of_int (Math_floor (minutes_between start (effective_end False ex now s) / 60)) * 1.5
        + js_rem (minutes_between start (effective_end False ex now s)) 60 * 0.025
        + of_int (extra_controllers s) * extra_controller_rate d
          * (minutes_between start (effective_end False ex now s) / 60)) * 100)) / 100"
  unfolding calculateSessionCost_def minutes_between_def Let_def using assms by simp

lemma Math_round_mono: "x \<le> y \<Longrightarrow> Math_round x \<le> Math_round y"
  unfolding Math_round_def by (intro floor_mono) simp

text \<open>
  C9. In open-ended mode the cost of a session without an end time never decreases when
  the clock advances, for a non-negative count of extra controllers and a non-negative
  extra-controller rate; the final rounding to two decimals is included.
\<close>

theorem open_cost_nondecreasing:
  assumes "end_time s = None" and "0 \<le> extra_controllers s"
    and "0 \<le> extra_controller_rate d" and "now \<le> now'"
  shows "calculateSessionCost True ex now s d \<le> calculateSessionCost True ex' now' s d"
proof (cases "start_time s")
  case None
  then show ?thesis by (simp add: calculateSessionCost_def)
next
  case (Some start)
  define k where "k = of_int (extra_controllers s) * extra_controller_rate d"
  have k: "0 \<le> k" using assms(2,3) by (simp add: k_def)
  have m: "minutes_between start now \<le> minutes_between start now'"
    using assms(4) by (simp add: minutes_between_def divide_right_mono)
  have "minutes_between start now * 0.025 + k * (minutes_between start now / 60)
      \<le> minutes_between start now' * 0.025 + k * (minutes_between start now' / 60)"
    using m k by (intro add_mono mult_right_mono mult_left_mono divide_right_mono) simp_all
  then have "Math_round ((minutes_between start now * 0.025
                 + k * (minutes_between start now / 60)) * 100)
           \<le> Math_round ((minutes_between start now' * 0.025
                 + k * (minutes_between start now' / 60)) * 100)"
    by (intro Math_round_mono mult_right_mono) simp_all
  then have "(of_int (Math_round ((minutes_between start now * 0.025
                 + k * (minutes_between start now / 60)) * 100)) :: real) / 100
           \<le> of_int (Math_round ((minutes_between start now' * 0.025
                 + k * (minutes_between start now' / 60)) * 100)) / 100"
    by (intro divide_right_mono) simp_all
  then show ?thesis
    unfolding calculateSessionCost_open[OF Some] effective_end_None[OF assms(1)] k_def .
qed

theorem open_cost_nondecreasing_witness:
  "end_time (open_session ''s1'' ''external-1'' 1) = None
   \<and> 0 \<le> extra_controllers (open_session ''s1'' ''external-1'' 1)
   \<and> 0 \<le> extra_controller_rate external_device
   \<and> (1740000::int) \<le> 5400000
   \<and> calculateSessionCost True {} 1740000 (open_session ''s1'' ''external-1'' 1) external_device
     \<le> calculateSessionCost True {} 5400000 (open_session ''s1'' ''external-1'' 1) external_device"
  using open_cost_nondecreasing [of "open_session ''s1'' ''external-1'' 1" external_device
      1740000 5400000 "{}" "{}"]
  by (simp add: open_session_def external_device_def)

text \<open>
  C10. A session whose \<open>end_time\<close> is set is costed up to that stored time, whatever the
  clock, the mode flag and the set of expired sessions are: the cost does not depend on
  the current time, and in fixed-duration mode it is, from the start of the session on,
  the cost of the whole scheduled duration.
\<close>

theorem stored_end_time_is_effective_end:
  assumes "end_time s = Some e"
  shows "effective_end io ex now s = e
       \<and> calculateSessionCost io ex now s d = calculateSessionCost io ex' now' s d
       \<and> (\<forall>start. start_time s = Some start \<longrightarrow>
            calculateSessionCost False ex now s d =
              round2 (of_int (Math_floor (minutes_between start e / 60)) * 1.5
                      + js_rem (minutes_between start e) 60 * 0.025
                      + of_int (extra_controllers s) * extra_controller_rate d
                        * (minutes_between start e / 60)))"
proof (intro conjI allI impI)
  show "effective_end io ex now s = e" using assms by (rule effective_end_Some)
  show "calculateSessionCost io ex now s d = calculateSessionCost io ex' now' s d"
    using assms
    by (simp add: calculateSessionCost_def effective_end_Some split: option.splits)
  fix start assume "start_time s = Some start"
  then show "calculateSessionCost False ex now s d =
              round2 (of_int (Math_floor (minutes_between start e / 60)) * 1.5
                      + js_rem (minutes_between start e) 60 * 0.025
                      + of_int (extra_controllers s) * extra_controller_rate d
                        * (minutes_between start e / 60))"
    unfolding round2_def effective_end_Some[OF assms, of False ex now, symmetric]
    by (rule calculateSessionCost_timed)
qed

theorem stored_end_time_is_effective_end_witness:
  "end_time (fixed_session ''s2'' ''internal-1'' 60) = Some 3600000
   \<and> start_time (fixed_session ''s2'' ''internal-1'' 60) = Some 0
   \<and> effective_end False {} 0 (fixed_session ''s2'' ''internal-1'' 60) = 3600000
   \<and> calculateSessionCost False {} 0 (fixed_session ''s2'' ''internal-1'' 60) internal_device
       = calculateSessionCost False {''s2''} 7200000 (fixed_session ''s2'' ''internal-1'' 60)
           internal_device
   \<and> calculateSessionCost False {} 0 (fixed_session ''s2'' ''internal-1'' 60) internal_device
       = 3 / 2"
  using stored_end_time_is_effective_end [of "fixed_session ''s2'' ''internal-1'' 60" 3600000
      False "{}" 0 internal_device "{''s2''}" 7200000]
  by (simp add: fixed_session_def open_session_def minutes_between_def round2_def
      Math_round_def Math_floor_def js_rem_def)

text \<open>
  On the session as it is stored, the calculator stops at the scheduled end: in
  fixed-duration mode the cost computed at any time at or after that end is the cost
  computed at the end itself, and the interval's recomputation at such a time leaves the
  session's running total as it was.
\<close>

lemma calculator_cost_stops_at_scheduled_end:
  assumes "end_time s = Some e" and "e \<le> now"
  shows "calculateSessionCost False ex now s d = calculateSessionCost False ex e s d
       \<and> total_cost (fst (costUpdateTick False ex now d s)) = total_cost s"
  using assms
  by (simp add: calculateSessionCost_def effective_end_Some costUpdateTick_def
      split: option.splits)

subsection \<open>The hourly rate of the device\<close>

text \<open>
  The calculator bills every device at 0.025 per minute and 1.5 per hour. On a device
  whose \<open>hourly_rate\<close> is 1.5 this is the billing rule of the specification, in both modes.
\<close>

lemma open_cost_at_default_rate:
  assumes "hourly_rate d = 3 / 2" and "start_time s = Some start" and "end_time s = None"
  shows "calculateSessionCost True ex now s d
       = spec_open_cost (minutes_between start now) (extra_controllers s) d"
proof -
  have "minutes_between start now * 0.025 = minutes_between start now * (hourly_rate d / 60)"
    unfolding assms(1) by simp
  then show ?thesis
    unfolding calculateSessionCost_open[OF assms(2)] effective_end_None[OF assms(3)]
      spec_open_cost_def spec_surcharge_def round2_def
    by (simp only:)
qed

lemma js_rem_nonneg: "0 \<le> a \<Longrightarrow> js_rem a 60 = a - 60 * of_int \<lfloor>a / 60\<rfloor>"
  by (simp add: js_rem_def)

lemma fixed_cost_at_default_rate:
  assumes "hourly_rate d = 3 / 2" and "start_time s = Some start" and "end_time s = Some e"
    and "start \<le> e"
  shows "calculateSessionCost False ex now s d
       = spec_fixed_cost (minutes_between start e) (extra_controllers s) d"
proof -
  define m where "m = minutes_between start e"
  have "0 \<le> m" using assms(4) by (simp add: minutes_between_def m_def)
  then have r: "js_rem m 60 = m - 60 * of_int \<lfloor>m / 60\<rfloor>" by (rule js_rem_nonneg)
  have "of_int (Math_floor (m / 60)) * 1.5 + js_rem m 60 * 0.025
      = of_int \<lfloor>m / 60\<rfloor> * hourly_rate d
        + (m - 60 * of_int \<lfloor>m / 60\<rfloor>) * (hourly_rate d / 60)"
    unfolding assms(1) r Math_floor_def by simp
  then show ?thesis
    unfolding calculateSessionCost_timed[OF assms(2)] effective_end_Some[OF assms(3)]
      spec_fixed_cost_def spec_surcharge_def round2_def m_def
    by (simp only:)
qed

text \<open>
  C1. The specification bills an open-ended session at the owning device's
  \<open>hourly_rate / 60\<close> per minute. The calculator does not read \<open>hourly_rate\<close>: sixty
  open-ended minutes on the VIP device (hourly rate 3, no extra controllers) cost 1.50,
  where the specification's rule gives 3.00.
\<close>

theorem open_cost_ignores_hourly_rate:
  "calculateSessionCost True {} 3600000 (open_session ''s3'' ''vip-1'' 0) vip_device = 1.5
   \<and> spec_open_cost (minutes_between 0 3600000) 0 vip_device = 3"
  by (simp add: calculateSessionCost_def effective_end_def open_session_def vip_device_def
      Math_round_def spec_open_cost_def spec_surcharge_def round2_def minutes_between_def)

text \<open>
  C2. The specification bills a fixed-duration session by the owning device's
  \<open>hourly_rate\<close>, and gives 2.00 for sixty minutes at hourly rate 2 without extra
  controllers. The calculator returns 1.50 for that session on the internal device
  (hourly rate 2), computed at the scheduled end.
\<close>

theorem fixed_cost_ignores_hourly_rate:
  "calculateSessionCost False {} 3600000 (fixed_session ''s4'' ''internal-1'' 60)
       internal_device = 1.5
   \<and> spec_fixed_cost (minutes_between 0 3600000) 0 internal_device = 2"
  by (simp add: calculateSessionCost_def effective_end_def open_session_def fixed_session_def
      internal_device_def Math_round_def Math_floor_def js_rem_def spec_fixed_cost_def
      spec_surcharge_def round2_def minutes_between_def)

section \<open>Properties of the session lifecycle\<close>

subsection \<open>What the storage holds after endSession\<close>

lemma in_set_status:
  "d' \<in> set (set_status did st ds) \<longleftrightarrow>
     (\<exists>d \<in> set ds. d' = (if dev_id d = did then d\<lparr>dev_status := st\<rparr> else d))"
  unfolding set_status_def set_map image_iff ..

lemma set_status_id: "d' \<in> set (set_status did st ds) \<Longrightarrow> dev_id d' = did \<Longrightarrow> dev_status d' = st"
  unfolding in_set_status by (erule bexE) (simp split: if_splits)

lemma set_status_overwrite:
  "set_status did st (set_status did st' ds) = set_status did st ds"
  by (induction ds) (simp_all add: set_status_def)

lemma endSession_sessions:
  assumes "\<not> isEndingSession c" and "activeSessions c deviceId = Some s"
    and "find (\<lambda>d. dev_id d = deviceId) (devices c) = Some device"
  shows "db_sessions (snd (endSession deviceId now True ok_device (c, db)))
       = map (\<lambda>r. if session_id r = session_id s
                  then complete_session now
                     (calculateSessionCost (isOpenSession c) (expiredSessions c) now
                        (s\<lparr>end_time := Some now\<rparr>) device)
                     (discount c / 100 * calculateSessionCost (isOpenSession c) (expiredSessions c) now
                        (s\<lparr>end_time := Some now\<rparr>) device)
                     (calculateSessionCost (isOpenSession c) (expiredSessions c) now
                        (s\<lparr>end_time := Some now\<rparr>) device
                      - discount c / 100 * calculateSessionCost (isOpenSession c) (expiredSessions c) now
                        (s\<lparr>end_time := Some now\<rparr>) device) r
                  else r) (db_sessions db)"
  using assms
  by (simp add: endSession_def Let_def storage_update_session_def storage_update_device_def)

lemma endSession_devices:
  assumes "\<not> isEndingSession c" and "activeSessions c deviceId = Some s"
    and "find (\<lambda>d. dev_id d = deviceId) (devices c) = Some device"
  shows "db_devices (snd (endSession deviceId now True ok_device (c, db)))
       = (if ok_device then set_status deviceId available (db_devices db) else db_devices db)"
  using assms
  by (simp add: endSession_def Let_def storage_update_session_def storage_update_device_def)

lemma startSession_rejected:
  assumes "find (\<lambda>d. dev_id d = deviceId) (devices c) = Some device"
    and "dev_status device \<noteq> available"
  shows "db_sessions (snd (startSession deviceId startTime now new_id ok_device ok_insert ok_revert (c, db)))
           = db_sessions db"
    and "activeSessions (fst (startSession deviceId startTime now new_id ok_device ok_insert ok_revert (c, db)))
           = activeSessions c"
    and "\<not> isStartingSession c \<Longrightarrow>
         error (fst (startSession deviceId startTime now new_id ok_device ok_insert ok_revert (c, db))) \<noteq> None"
  using assms by (simp_all add: startSession_def Let_def storage_update_device_def)

lemma endSession_completes:
  assumes c: "\<not> isEndingSession c" "activeSessions c deviceId = Some s"
    "find (\<lambda>d. dev_id d = deviceId) (devices c) = Some device"
    and r: "r \<in> set (db_sessions (snd (endSession deviceId now True ok_device (c, db))))"
      "session_id r = session_id s"
  shows "session_status r = completed"
proof -
  from r(1) obtain r0 where r0: "r0 \<in> set (db_sessions db)"
    and req: "r = (if session_id r0 = session_id s
                then complete_session now
                     (calculateSessionCost (isOpenSession c) (expiredSessions c) now
                        (s\<lparr>end_time := Some now\<rparr>) device)
                     (discount c / 100 * calculateSessionCost (isOpenSession c) (expiredSessions c) now
                        (s\<lparr>end_time := Some now\<rparr>) device)
                     (calculateSessionCost (isOpenSession c) (expiredSessions c) now
                        (s\<lparr>end_time := Some now\<rparr>) device
                      - discount c / 100 * calculateSessionCost (isOpenSession c) (expiredSessions c) now
                        (s\<lparr>end_time := Some now\<rparr>) device) r0
                  else r0)"
    unfolding endSession_sessions[OF c] set_map image_iff by (elim bexE)
  have sid: "session_id r0 = session_id s"
    using req r(2) by (cases "session_id r0 = session_id s") simp_all
  with req show "session_status r = completed" by (simp add: complete_session_def)
qed

lemma endSession_releases:
  assumes c: "\<not> isEndingSession c" "activeSessions c deviceId = Some s"
    "find (\<lambda>d. dev_id d = deviceId) (devices c) = Some device"
    and d: "d \<in> set (db_devices (snd (endSession deviceId now True True (c, db))))"
      "dev_id d = deviceId"
  shows "dev_status d = available"
proof -
  have "d \<in> set (set_status deviceId available (db_devices db))"
    using d(1) unfolding endSession_devices[OF c] by simp
  then show ?thesis using d(2) by (rule set_status_id)
qed

lemma endSession_page:
  assumes "\<not> isEndingSession c" "activeSessions c deviceId = Some s"
    "find (\<lambda>d. dev_id d = deviceId) (devices c) = Some device"
  shows "devices (fst (endSession deviceId now True True (c, db)))
           = set_status deviceId available (devices c)"
    and "activeSessions (fst (endSession deviceId now True True (c, db))) deviceId = None"
  using assms by (simp_all add: endSession_def Let_def)

text \<open>
  C6, as the code has it. \<open>startSession\<close> on a device that the page holds with a status
  other than \<open>available\<close> creates no session, in storage or on the page, and reports an
  error, whatever the outcome of the storage requests. When \<open>endSession\<close> gets both its
  updates through, the session's, then the device's, every row of that session is
  completed, the rows of the device are \<open>available\<close> in storage, and the page shows the
  device available and holds no session for it.
\<close>

theorem page_rejected_start_and_completed_end:
  "(find (\<lambda>d. dev_id d = deviceId) (devices c) = Some device \<and> dev_status device \<noteq> available \<longrightarrow>
      db_sessions (snd (startSession deviceId startTime now new_id ok_device ok_insert ok_revert
          (c, db))) = db_sessions db
      \<and> activeSessions (fst (startSession deviceId startTime now new_id ok_device ok_insert
          ok_revert (c, db))) = activeSessions c
      \<and> (\<not> isStartingSession c \<longrightarrow>
           error (fst (startSession deviceId startTime now new_id ok_device ok_insert ok_revert
             (c, db))) \<noteq> None))
   \<and> (\<not> isEndingSession c \<and> activeSessions c deviceId = Some s
        \<and> find (\<lambda>d. dev_id d = deviceId) (devices c) = Some device' \<longrightarrow>
      (\<forall>r \<in> set (db_sessions (snd (endSession deviceId now' True True (c, db)))).
         session_id r = session_id s \<longrightarrow> session_status r = completed)
      \<and> (\<forall>d \<in> set (db_devices (snd (endSession deviceId now' True True (c, db)))).
            dev_id d = deviceId \<longrightarrow> dev_status d = available)
      \<and> (\<forall>d \<in> set (devices (fst (endSession deviceId now' True True (c, db)))).
            dev_id d = deviceId \<longrightarrow> dev_status d = available)
      \<and> activeSessions (fst (endSession deviceId now' True True (c, db))) deviceId = None)"
proof (intro conjI impI ballI; (elim conjE)?)
  assume a: "find (\<lambda>d. dev_id d = deviceId) (devices c) = Some device"
    "dev_status device \<noteq> available"
  show "db_sessions (snd (startSession deviceId startTime now new_id ok_device ok_insert ok_revert
          (c, db))) = db_sessions db" by (rule startSession_rejected(1)[OF a])
  show "activeSessions (fst (startSession deviceId startTime now new_id ok_device ok_insert
          ok_revert (c, db))) = activeSessions c" by (rule startSession_rejected(2)[OF a])
  assume "\<not> isStartingSession c"
  then show "error (fst (startSession deviceId startTime now new_id ok_device ok_insert ok_revert
             (c, db))) \<noteq> None" by (rule startSession_rejected(3)[OF a])
next
  fix r
  assume c: "\<not> isEndingSession c" "activeSessions c deviceId = Some s"
    "find (\<lambda>d. dev_id d = deviceId) (devices c) = Some device'"
    and r: "r \<in> set (db_sessions (snd (endSession deviceId now' True True (c, db))))"
      "session_id r = session_id s"
  show "session_status r = completed" by (rule endSession_completes[OF c r])
next
  fix d
  assume c: "\<not> isEndingSession c" "activeSessions c deviceId = Some s"
    "find (\<lambda>d. dev_id d = deviceId) (devices c) = Some device'"
    and d: "d \<in> set (db_devices (snd (endSession deviceId now' True True (c, db))))"
      "dev_id d = deviceId"
  show "dev_status d = available" by (rule endSession_releases[OF c d])
next
  fix d
  assume c: "\<not> isEndingSession c" "activeSessions c deviceId = Some s"
    "find (\<lambda>d. dev_id d = deviceId) (devices c) = Some device'"
    and "d \<in> set (devices (fst (endSession deviceId now' True True (c, db))))"
    and "dev_id d = deviceId"
  then show "dev_status d = available"
    unfolding endSession_page(1)[OF c] by (intro set_status_id)
next
  assume c: "\<not> isEndingSession c" "activeSessions c deviceId = Some s"
    "find (\<lambda>d. dev_id d = deviceId) (devices c) = Some device'"
  show "activeSessions (fst (endSession deviceId now' True True (c, db))) deviceId = None"
    by (rule endSession_page(2)[OF c])
qed

theorem page_rejected_start_and_completed_end_witness:
  "find (\<lambda>d. dev_id d = ''external-1'') (devices ex_page) = Some external_device
   \<and> dev_status external_device \<noteq> available
   \<and> \<not> isStartingSession ex_page \<and> \<not> isEndingSession ex_page
   \<and> activeSessions ex_page ''external-1'' = Some (open_session ''s1'' ''external-1'' 1)
   \<and> db_sessions (snd (startSession ''external-1'' 0 0 ''s2'' True True True (ex_page, ex_storage)))
       = db_sessions ex_storage
   \<and> error (fst (startSession ''external-1'' 0 0 ''s2'' True True True (ex_page, ex_storage)))
       \<noteq> None
   \<and> map session_status (db_sessions (snd (endSession ''external-1'' 5400000 True True
         (ex_page, ex_storage)))) = [completed]
   \<and> map dev_status (db_devices (snd (endSession ''external-1'' 5400000 True True
         (ex_page, ex_storage)))) = [available]
   \<and> map dev_status (devices (fst (endSession ''external-1'' 5400000 True True
         (ex_page, ex_storage)))) = [available]"
  using page_rejected_start_and_completed_end [where c = ex_page and deviceId = "''external-1''"
      and s = "open_session ''s1'' ''external-1'' 1" and device = external_device
      and device' = external_device and now = 0 and startTime = 0 and now' = 5400000
      and db = ex_storage and new_id = "''s2''" and ok_device = True and ok_insert = True
      and ok_revert = True]
  by (simp add: endSession_def startSession_def example_defs storage_defs cost_defs)

text \<open>
  The claim fails as it is stated, on both halves. The rejection looks at the page's copy
  of the device only: a device that storage has occupied is started from a page that
  still shows it available. And the release is a second request: when the update of the
  session succeeds and the update of the device fails, the session is completed and the
  device stays occupied.
\<close>

theorem stale_start_accepted_and_release_can_fail:
  "map dev_status (db_devices ex_storage) = [occupied]
   \<and> map session_id (db_sessions (snd (startSession ''external-1'' 60000 60000 ''s2'' True True
         True (fresh_page, ex_storage)))) = [''s1'', ''s2'']
   \<and> error (fst (startSession ''external-1'' 60000 60000 ''s2'' True True True
         (fresh_page, ex_storage))) = None
   \<and> map session_status (db_sessions (snd (endSession ''external-1'' 5400000 True False
         (ex_page, ex_storage)))) = [completed]
   \<and> map dev_status (db_devices (snd (endSession ''external-1'' 5400000 True False
         (ex_page, ex_storage)))) = [occupied]"
  by (simp add: endSession_def startSession_def example_defs storage_defs cost_defs)

subsection \<open>The invariant\<close>

lemma startSession_success:
  assumes "\<not> isStartingSession c"
    and "find (\<lambda>d. dev_id d = deviceId) (devices c) = Some device"
    and "dev_status device = available"
  shows "\<exists>row. device_id row = deviceId \<and> session_status row = active \<and> session_id row = new_id
           \<and> db_sessions (snd (startSession deviceId startTime now new_id True True ok_revert (c, db)))
               = db_sessions db @ [row]
           \<and> activeSessions (fst (startSession deviceId startTime now new_id True True ok_revert (c, db))) deviceId
               = Some row"
    and "db_devices (snd (startSession deviceId startTime now new_id True True ok_revert (c, db)))
           = set_status deviceId occupied (db_devices db)"
    and "devices (fst (startSession deviceId startTime now new_id True True ok_revert (c, db)))
           = set_status deviceId occupied (devices c)"
  using assms
  by (simp_all add: startSession_def Let_def storage_update_device_def storage_insert_session_def)

lemma active_sessions_of_cong:
  "db_sessions db1 = db_sessions db2 \<Longrightarrow> active_sessions_of k db1 = active_sessions_of k db2"
  by (simp add: active_sessions_of_def)

lemma startSession_preserves:
  assumes inv: "one_active_session_per_device db"
    and c: "\<not> isStartingSession c" "find (\<lambda>d. dev_id d = deviceId) (devices c) = Some device"
      "dev_status device = available"
    and st: "\<exists>d \<in> set (db_devices db). dev_id d = deviceId \<and> dev_status d = available"
  shows "one_active_session_per_device (snd (startSession deviceId startTime now new_id True True ok_revert (c, db)))"
    and "length (active_sessions_of deviceId
           (snd (startSession deviceId startTime now new_id True True ok_revert (c, db)))) = 1"
proof -
  let ?db' = "snd (startSession deviceId startTime now new_id True True ok_revert (c, db))"
  from startSession_success(1)[OF c, of new_id startTime now ok_revert db]
  obtain row where row: "device_id row = deviceId" "session_status row = active"
    and ses: "db_sessions ?db' = db_sessions db @ [row]" by (elim exE conjE)
  have dev: "db_devices ?db' = set_status deviceId occupied (db_devices db)"
    by (rule startSession_success(2)[OF c])
  have act: "active_sessions_of k ?db'
      = active_sessions_of k db @ (if k = deviceId then [row] else [])" for k
    unfolding active_sessions_of_def ses using row by simp
  from st obtain d1 where d1: "d1 \<in> set (db_devices db)" "dev_id d1 = deviceId"
    "dev_status d1 = available" by (elim bexE conjE)
  from inv d1 have zero: "length (active_sessions_of deviceId db) = 0"
    unfolding one_active_session_per_device_def by (elim ballE[of _ _ d1]) simp_all
  show "length (active_sessions_of deviceId ?db') = 1"
    using zero by (simp add: act)
  show "one_active_session_per_device ?db'"
    unfolding one_active_session_per_device_def dev
  proof (intro ballI)
    fix d assume "d \<in> set (set_status deviceId occupied (db_devices db))"
    then obtain d0 where d0: "d0 \<in> set (db_devices db)"
      and d: "d = (if dev_id d0 = deviceId then d0\<lparr>dev_status := occupied\<rparr> else d0)"
      unfolding in_set_status by (elim bexE)
    from inv d0 have inv0: "length (active_sessions_of (dev_id d0) db)
        = (if dev_status d0 = occupied then 1 else 0)"
      unfolding one_active_session_per_device_def by (rule bspec)
    show "length (active_sessions_of (dev_id d) ?db') = (if dev_status d = occupied then 1 else 0)"
    proof (cases "dev_id d0 = deviceId")
      case True
      with d zero show ?thesis by (simp add: act)
    next
      case False
      with d inv0 show ?thesis by (simp add: act)
    qed
  qed
qed

lemma filter_map_completed:
  "filter (\<lambda>r. device_id r = k \<and> session_status r = active)
     (map (\<lambda>r. if session_id r = sid then complete_session a b c' d' r else r) xs)
   = filter (\<lambda>r. session_id r \<noteq> sid) (filter (\<lambda>r. device_id r = k \<and> session_status r = active) xs)"
  by (induction xs) (simp_all add: complete_session_def)

lemma filter_other_device:
  assumes "\<forall>r \<in> set xs. session_id r = sid \<longrightarrow> device_id r = deviceId" and "k \<noteq> deviceId"
  shows "filter (\<lambda>r. session_id r \<noteq> sid) (filter (\<lambda>r. device_id r = k \<and> session_status r = active) xs)
       = filter (\<lambda>r. device_id r = k \<and> session_status r = active) xs"
  using assms by (induction xs) simp_all

lemma filter_single:
  assumes "length (filter P xs) \<le> 1" and "r \<in> set xs" and "P r" and "\<not> Q r"
  shows "filter Q (filter P xs) = []"
proof -
  from assms(2,3) have r: "r \<in> set (filter P xs)" by simp
  then obtain ys where ys: "filter P xs = [r]"
    using assms(1) by (cases "filter P xs") (simp_all split: list.splits)
  show ?thesis unfolding ys using assms(4) by simp
qed

lemma endSession_preserves:
  assumes inv: "one_active_session_per_device db"
    and c: "\<not> isEndingSession c" "activeSessions c deviceId = Some s"
      "find (\<lambda>d. dev_id d = deviceId) (devices c) = Some device"
    and ex: "\<exists>r \<in> set (db_sessions db). session_id r = session_id s"
    and all: "\<forall>r \<in> set (db_sessions db). session_id r = session_id s
                \<longrightarrow> session_status r = active \<and> device_id r = deviceId"
    and dev: "\<exists>d \<in> set (db_devices db). dev_id d = deviceId"
  shows "one_active_session_per_device (snd (endSession deviceId now True True (c, db)))"
    and "active_sessions_of deviceId (snd (endSession deviceId now True True (c, db))) = []"
proof -
  let ?db' = "snd (endSession deviceId now True True (c, db))"
  let ?sid = "session_id s"
  from ex obtain r where r: "r \<in> set (db_sessions db)" "session_id r = ?sid" by (elim bexE)
  with all have ract: "session_status r = active" "device_id r = deviceId" by simp_all
  have devs: "db_devices ?db' = set_status deviceId available (db_devices db)"
    unfolding endSession_devices[OF c] by simp
  have act: "active_sessions_of k ?db'
      = filter (\<lambda>r. session_id r \<noteq> ?sid) (active_sessions_of k db)" for k
    unfolding active_sessions_of_def endSession_sessions[OF c] by (rule filter_map_completed)
  have other: "active_sessions_of k ?db' = active_sessions_of k db" if "k \<noteq> deviceId" for k
    unfolding act unfolding active_sessions_of_def
    using all that by (intro filter_other_device) simp_all
  from dev obtain d1 where d1: "d1 \<in> set (db_devices db)" "dev_id d1 = deviceId" by (elim bexE)
  from inv d1 have "length (active_sessions_of deviceId db) \<le> 1"
    unfolding one_active_session_per_device_def by (elim ballE[of _ _ d1]) (simp_all split: if_splits)
  then show none: "active_sessions_of deviceId ?db' = []"
    unfolding act unfolding active_sessions_of_def
    using r ract by (intro filter_single[of _ _ r]) simp_all
  show "one_active_session_per_device ?db'"
    unfolding one_active_session_per_device_def devs
  proof (intro ballI)
    fix d assume "d \<in> set (set_status deviceId available (db_devices db))"
    then obtain d0 where d0: "d0 \<in> set (db_devices db)"
      and d: "d = (if dev_id d0 = deviceId then d0\<lparr>dev_status := available\<rparr> else d0)"
      unfolding in_set_status by (elim bexE)
    from inv d0 have inv0: "length (active_sessions_of (dev_id d0) db)
        = (if dev_status d0 = occupied then 1 else 0)"
      unfolding one_active_session_per_device_def by (rule bspec)
    show "length (active_sessions_of (dev_id d) ?db') = (if dev_status d = occupied then 1 else 0)"
    proof (cases "dev_id d0 = deviceId")
      case True
      with d none show ?thesis by simp
    next
      case False
      with d inv0 show ?thesis by (simp add: other)
    qed
  qed
qed

lemma startSession_devices_occupied:
  assumes c: "\<not> isStartingSession c" "find (\<lambda>d. dev_id d = deviceId) (devices c) = Some device"
      "dev_status device = available"
    and d: "d \<in> set (db_devices (snd (startSession deviceId startTime now new_id True True ok_revert (c, db))))"
      "dev_id d = deviceId"
  shows "dev_status d = occupied"
  using d unfolding startSession_success(2)[OF c] by (intro set_status_id)

lemma invariant_cong:
  assumes "one_active_session_per_device db" and "db_sessions db' = db_sessions db"
    and "db_devices db' = db_devices db"
  shows "one_active_session_per_device db'"
  using assms unfolding one_active_session_per_device_def active_sessions_of_def by simp

lemma invariant_set_status:
  assumes inv: "one_active_session_per_device db"
    and zero: "active_sessions_of deviceId db = []" and st: "st \<noteq> occupied"
    and ses: "db_sessions db' = db_sessions db"
    and dev: "db_devices db' = set_status deviceId st (db_devices db)"
  shows "one_active_session_per_device db'"
  unfolding one_active_session_per_device_def dev
proof (intro ballI)
  fix d assume "d \<in> set (set_status deviceId st (db_devices db))"
  then obtain d0 where d0: "d0 \<in> set (db_devices db)"
    and d: "d = (if dev_id d0 = deviceId then d0\<lparr>dev_status := st\<rparr> else d0)"
    unfolding in_set_status by (elim bexE)
  from inv d0 have inv0: "length (active_sessions_of (dev_id d0) db)
      = (if dev_status d0 = occupied then 1 else 0)"
    unfolding one_active_session_per_device_def by (rule bspec)
  have act: "active_sessions_of k db' = active_sessions_of k db" for k
    using ses by (rule active_sessions_of_cong)
  show "length (active_sessions_of (dev_id d) db') = (if dev_status d = occupied then 1 else 0)"
  proof (cases "dev_id d0 = deviceId")
    case True
    with d zero st show ?thesis by (simp add: act)
  next
    case False
    with d inv0 show ?thesis by (simp add: act)
  qed
qed

lemma startSession_failed:
  assumes "\<not> isStartingSession c"
    and "find (\<lambda>d. dev_id d = deviceId) (devices c) = Some device"
    and "dev_status device = available"
    and "\<not> (ok_device \<and> ok_insert)"
  shows "db_sessions (snd (startSession deviceId startTime now new_id ok_device ok_insert ok_revert
            (c, db))) = db_sessions db"
    and "db_devices (snd (startSession deviceId startTime now new_id ok_device ok_insert ok_revert
            (c, db)))
         = (if ok_revert then set_status deviceId available
                (if ok_device then set_status deviceId occupied (db_devices db) else db_devices db)
            else if ok_device then set_status deviceId occupied (db_devices db)
            else db_devices db)"
  using assms
  by (simp_all add: startSession_def Let_def storage_update_device_def)

lemma startSession_failed_preserves:
  assumes inv: "one_active_session_per_device db"
    and c: "\<not> isStartingSession c" "find (\<lambda>d. dev_id d = deviceId) (devices c) = Some device"
      "dev_status device = available"
    and st: "\<exists>d \<in> set (db_devices db). dev_id d = deviceId \<and> dev_status d = available"
    and fail: "\<not> (ok_device \<and> ok_insert)" and rev: "ok_device \<longrightarrow> ok_revert"
  shows "one_active_session_per_device
           (snd (startSession deviceId startTime now new_id ok_device ok_insert ok_revert (c, db)))"
proof -
  let ?db' = "snd (startSession deviceId startTime now new_id ok_device ok_insert ok_revert (c, db))"
  from st obtain d1 where d1: "d1 \<in> set (db_devices db)" "dev_id d1 = deviceId"
    "dev_status d1 = available" by (elim bexE conjE)
  from inv d1 have zero: "active_sessions_of deviceId db = []"
    unfolding one_active_session_per_device_def by (elim ballE[of _ _ d1]) simp_all
  have ses: "db_sessions ?db' = db_sessions db" by (rule startSession_failed(1)[OF c fail])
  show ?thesis
  proof (cases ok_revert)
    case True
    have "db_devices ?db' = set_status deviceId available (db_devices db)"
      unfolding startSession_failed(2)[OF c fail] using True
      by (simp add: set_status_overwrite)
    with inv zero _ ses show ?thesis by (rule invariant_set_status) simp
  next
    case False
    with rev have "\<not> ok_device" by simp
    with False have "db_devices ?db' = db_devices db"
      unfolding startSession_failed(2)[OF c fail] by simp
    with inv ses show ?thesis by (rule invariant_cong)
  qed
qed

lemma endSession_failed:
  "snd (endSession deviceId now False ok_device (c, db)) = db"
  by (simp add: endSession_def Let_def split: option.splits)

text \<open>
  C8, as the code has it. Let the invariant hold in storage. A \<open>startSession\<close> on a device
  that is available on the page and in storage keeps the invariant, unless the insert of
  the session fails and the revert of the device fails too; when its writes succeed, the
  device has exactly one active session and is occupied. An \<open>endSession\<close> for a page
  session whose rows in storage exist, are active and belong to the device keeps the
  invariant, unless the update of the session succeeds and the update of the device
  fails; when both succeed, the device has no active session and is available.
\<close>

theorem lifecycle_preserves_one_active_session:
  assumes "one_active_session_per_device db"
  shows "(\<not> isStartingSession c \<and> find (\<lambda>d. dev_id d = deviceId) (devices c) = Some device
          \<and> dev_status device = available
          \<and> (\<exists>d \<in> set (db_devices db). dev_id d = deviceId \<and> dev_status d = available)
          \<and> (ok_device \<and> \<not> ok_insert \<longrightarrow> ok_revert) \<longrightarrow>
            one_active_session_per_device
              (snd (startSession deviceId startTime now new_id ok_device ok_insert ok_revert (c, db)))
            \<and> (ok_device \<and> ok_insert \<longrightarrow>
                 length (active_sessions_of deviceId
                   (snd (startSession deviceId startTime now new_id ok_device ok_insert ok_revert
                      (c, db)))) = 1
                 \<and> (\<forall>d \<in> set (db_devices
                        (snd (startSession deviceId startTime now new_id ok_device ok_insert
                           ok_revert (c, db)))).
                      dev_id d = deviceId \<longrightarrow> dev_status d = occupied)))
       \<and> (\<not> isEndingSession c \<and> activeSessions c deviceId = Some s
          \<and> find (\<lambda>d. dev_id d = deviceId) (devices c) = Some device'
          \<and> (\<exists>r \<in> set (db_sessions db). session_id r = session_id s)
          \<and> (\<forall>r \<in> set (db_sessions db). session_id r = session_id s
                \<longrightarrow> session_status r = active \<and> device_id r = deviceId)
          \<and> (\<exists>d \<in> set (db_devices db). dev_id d = deviceId)
          \<and> (ok_session \<longrightarrow> ok_device') \<longrightarrow>
            one_active_session_per_device
              (snd (endSession deviceId now' ok_session ok_device' (c, db)))
            \<and> (ok_session \<longrightarrow>
                 active_sessions_of deviceId
                   (snd (endSession deviceId now' ok_session ok_device' (c, db))) = []
                 \<and> (\<forall>d \<in> set (db_devices
                        (snd (endSession deviceId now' ok_session ok_device' (c, db)))).
                      dev_id d = deviceId \<longrightarrow> dev_status d = available)))"
proof (intro conjI impI ballI; (elim conjE)?)
  assume c: "\<not> isStartingSession c" "find (\<lambda>d. dev_id d = deviceId) (devices c) = Some device"
      "dev_status device = available"
    and st: "\<exists>d \<in> set (db_devices db). dev_id d = deviceId \<and> dev_status d = available"
    and rev: "ok_device \<and> \<not> ok_insert \<longrightarrow> ok_revert"
  show "one_active_session_per_device
          (snd (startSession deviceId startTime now new_id ok_device ok_insert ok_revert (c, db)))"
  proof (cases "ok_device \<and> ok_insert")
    case True
    then have "ok_device = True" "ok_insert = True" by simp_all
    then show ?thesis using startSession_preserves(1)[OF assms c st] by simp
  next
    case False
    with rev have "ok_device \<longrightarrow> ok_revert" by simp
    with assms c st False show ?thesis by (rule startSession_failed_preserves)
  qed
next
  assume c: "\<not> isStartingSession c" "find (\<lambda>d. dev_id d = deviceId) (devices c) = Some device"
      "dev_status device = available"
    and st: "\<exists>d \<in> set (db_devices db). dev_id d = deviceId \<and> dev_status d = available"
    and "ok_device" "ok_insert"
  then have ok: "ok_device = True" "ok_insert = True" by simp_all
  show "length (active_sessions_of deviceId
          (snd (startSession deviceId startTime now new_id ok_device ok_insert ok_revert
             (c, db)))) = 1"
    unfolding ok by (rule startSession_preserves(2)[OF assms c st])
  fix d assume "d \<in> set (db_devices
      (snd (startSession deviceId startTime now new_id ok_device ok_insert ok_revert (c, db))))"
    and "dev_id d = deviceId"
  then show "dev_status d = occupied"
    unfolding ok by (rule startSession_devices_occupied[OF c])
next
  assume c: "\<not> isEndingSession c" "activeSessions c deviceId = Some s"
      "find (\<lambda>d. dev_id d = deviceId) (devices c) = Some device'"
    and ex: "\<exists>r \<in> set (db_sessions db). session_id r = session_id s"
    and all: "\<forall>r \<in> set (db_sessions db). session_id r = session_id s
                \<longrightarrow> session_status r = active \<and> device_id r = deviceId"
    and dev: "\<exists>d \<in> set (db_devices db). dev_id d = deviceId"
    and both: "ok_session \<longrightarrow> ok_device'"
  show "one_active_session_per_device (snd (endSession deviceId now' ok_session ok_device' (c, db)))"
  proof (cases ok_session)
    case True
    with both have "ok_session = True" "ok_device' = True" by simp_all
    then show ?thesis using endSession_preserves(1)[OF assms c ex all dev] by simp
  next
    case False
    then have "ok_session = False" by simp
    then show ?thesis using assms by (simp add: endSession_failed)
  qed
next
  assume c: "\<not> isEndingSession c" "activeSessions c deviceId = Some s"
      "find (\<lambda>d. dev_id d = deviceId) (devices c) = Some device'"
    and ex: "\<exists>r \<in> set (db_sessions db). session_id r = session_id s"
    and all: "\<forall>r \<in> set (db_sessions db). session_id r = session_id s
                \<longrightarrow> session_status r = active \<and> device_id r = deviceId"
    and dev: "\<exists>d \<in> set (db_devices db). dev_id d = deviceId"
    and both: "ok_session \<longrightarrow> ok_device'" and "ok_session"
  then have ok: "ok_session = True" "ok_device' = True" by simp_all
  show "active_sessions_of deviceId (snd (endSession deviceId now' ok_session ok_device' (c, db))) = []"
    unfolding ok by (rule endSession_preserves(2)[OF assms c ex all dev])
  fix d assume "d \<in> set (db_devices (snd (endSession deviceId now' ok_session ok_device' (c, db))))"
    and "dev_id d = deviceId"
  then show "dev_status d = available"
    unfolding ok by (rule endSession_releases[OF c])
qed

theorem lifecycle_preserves_one_active_session_witness:
  "one_active_session_per_device fresh_storage
   \<and> find (\<lambda>d. dev_id d = ''external-1'') (devices fresh_page) = Some free_device
   \<and> dev_status free_device = available
   \<and> one_active_session_per_device
        (snd (startSession ''external-1'' 0 0 ''s1'' True True True (fresh_page, fresh_storage)))
   \<and> length (active_sessions_of ''external-1''
        (snd (startSession ''external-1'' 0 0 ''s1'' True True True (fresh_page, fresh_storage)))) = 1
   \<and> one_active_session_per_device ex_storage
   \<and> activeSessions ex_page ''external-1'' = Some (open_session ''s1'' ''external-1'' 1)
   \<and> one_active_session_per_device
        (snd (endSession ''external-1'' 5400000 True True (ex_page, ex_storage)))
   \<and> active_sessions_of ''external-1''
        (snd (endSession ''external-1'' 5400000 True True (ex_page, ex_storage))) = []"
proof -
  have f: "one_active_session_per_device fresh_storage"
    by (simp add: one_active_session_per_device_def active_sessions_of_def example_defs)
  have e: "one_active_session_per_device ex_storage"
    by (simp add: one_active_session_per_device_def active_sessions_of_def example_defs)
  have p: "\<not> isStartingSession fresh_page
      \<and> find (\<lambda>d. dev_id d = ''external-1'') (devices fresh_page) = Some free_device
      \<and> dev_status free_device = available
      \<and> (\<exists>d \<in> set (db_devices fresh_storage). dev_id d = ''external-1'' \<and> dev_status d = available)
      \<and> (True \<and> \<not> True \<longrightarrow> True)"
    by (simp add: example_defs)
  have q: "\<not> isEndingSession ex_page
      \<and> activeSessions ex_page ''external-1'' = Some (open_session ''s1'' ''external-1'' 1)
      \<and> find (\<lambda>d. dev_id d = ''external-1'') (devices ex_page) = Some external_device
      \<and> (\<exists>r \<in> set (db_sessions ex_storage).
            session_id r = session_id (open_session ''s1'' ''external-1'' 1))
      \<and> (\<forall>r \<in> set (db_sessions ex_storage).
            session_id r = session_id (open_session ''s1'' ''external-1'' 1)
            \<longrightarrow> session_status r = active \<and> device_id r = ''external-1'')
      \<and> (\<exists>d \<in> set (db_devices ex_storage). dev_id d = ''external-1'')
      \<and> (True \<longrightarrow> True)"
    by (simp add: example_defs)
  note started = lifecycle_preserves_one_active_session [OF f, where c = fresh_page
        and deviceId = "''external-1''" and device = free_device and startTime = 0 and now = 0
        and new_id = "''s1''" and ok_device = True and ok_insert = True and ok_revert = True,
        THEN conjunct1, THEN mp, OF p]
  note ended = lifecycle_preserves_one_active_session [OF e, where c = ex_page
        and deviceId = "''external-1''" and device' = external_device and now' = 5400000
        and s = "open_session ''s1'' ''external-1'' 1" and ok_session = True
        and ok_device' = True, THEN conjunct2, THEN mp, OF q]
  show ?thesis using f e p q started ended by simp
qed

text \<open>
  The invariant is not kept by every operation. The page decides on its own copy of the
  device: from a page that still shows the device available while storage has it occupied
  with an active session, \<open>startSession\<close> succeeds and storage holds two active sessions
  of the device. The revert is a request like any other: when the insert and the revert
  both fail, the device stays occupied without a session. And so does it when
  \<open>endSession\<close> completes the session and its update of the device fails.
\<close>

theorem lifecycle_can_break_one_active_session:
  "one_active_session_per_device ex_storage
   \<and> \<not> one_active_session_per_device
         (snd (startSession ''external-1'' 60000 60000 ''s2'' True True True
            (fresh_page, ex_storage)))
   \<and> length (active_sessions_of ''external-1''
         (snd (startSession ''external-1'' 60000 60000 ''s2'' True True True
            (fresh_page, ex_storage)))) = 2
   \<and> one_active_session_per_device fresh_storage
   \<and> \<not> one_active_session_per_device
         (snd (startSession ''external-1'' 0 0 ''s1'' True False False
            (fresh_page, fresh_storage)))
   \<and> \<not> one_active_session_per_device
         (snd (endSession ''external-1'' 5400000 True False (ex_page, ex_storage)))"
  by (simp add: startSession_def endSession_def example_defs storage_defs cost_defs
      one_active_session_per_device_def active_sessions_of_def)

subsection \<open>The cost that endSession stores\<close>

text \<open>
  C7. The specification stops the cost of a fixed-duration session at its scheduled end,
  and on the stored session the calculator does (\<open>calculator_cost_stops_at_scheduled_end\<close>).
  But \<open>endSession\<close> replaces \<open>end_time\<close> by the clock before it calls the calculator, so the
  cost it stores runs to the moment of ending: for the session of 60 minutes on the
  external device, expired and shown with its cost of 1.50, it stores 3.00 when the
  session is ended at 120 minutes, in fixed-duration mode and in open-ended mode alike,
  and 1.50 only when it is ended at the scheduled end.
\<close>

theorem endSession_bills_overtime:
  "calculateSessionCost False (expiredSessions expired_page) 3600000 expired_session
       external_device = 1.5
   \<and> calculateSessionCost False (expiredSessions expired_page) 7200000 expired_session
       external_device = 1.5
   \<and> map total_cost (db_sessions (snd (endSession ''external-1'' 3600000 True True
         (expired_page, expired_storage)))) = [1.5]
   \<and> map total_cost (db_sessions (snd (endSession ''external-1'' 7200000 True True
         (expired_page, expired_storage)))) = [3]
   \<and> map total_cost (db_sessions (snd (endSession ''external-1'' 7200000 True True
         (expired_page\<lparr>isOpenSession := True, expiredSessions := {}\<rparr>, expired_storage)))) = [3]"
  by (simp add: endSession_def expired_page_def expired_storage_def expired_session_def
      fixed_session_def example_defs storage_defs cost_defs)

section \<open>Final amounts\<close>

lemma Math_round_nonneg: "0 \<le> x \<Longrightarrow> 0 \<le> Math_round x"
  unfolding Math_round_def by simp

lemma calculateSessionCost_nonneg:
  assumes "\<forall>st. start_time s = Some st \<longrightarrow> st \<le> effective_end io ex now s"
    and "0 \<le> extra_controllers s" and "0 \<le> extra_controller_rate d"
  shows "0 \<le> calculateSessionCost io ex now s d"
proof (cases "start_time s")
  case None
  then show ?thesis by (simp add: calculateSessionCost_def)
next
  case (Some start)
  define m where "m = minutes_between start (effective_end io ex now s)"
  have m: "0 \<le> m" using assms(1) Some by (simp add: m_def minutes_between_def)
  have k: "0 \<le> of_int (extra_controllers s) * extra_controller_rate d * (m / 60)"
    using assms(2,3) m by simp
  show ?thesis
  proof (cases io)
    case True
    have "0 \<le> m * 0.025" using m by simp
    from add_nonneg_nonneg[OF this k]
    have "0 \<le> (m * 0.025 + of_int (extra_controllers s) * extra_controller_rate d * (m / 60)) * 100"
      by (rule mult_nonneg_nonneg) simp
    then have "0 \<le> (of_int (Math_round ((m * 0.025
        + of_int (extra_controllers s) * extra_controller_rate d * (m / 60)) * 100)) :: real) / 100"
      by (intro divide_nonneg_nonneg of_int_nonneg Math_round_nonneg) simp_all
    then show ?thesis
      using True unfolding m_def by (simp only: calculateSessionCost_open[OF Some])
  next
    case False
    have f: "0 \<le> (of_int (Math_floor (m / 60)) :: real)" using m by (simp add: Math_floor_def)
    have "0 \<le> m / 60" using m by simp
    have "of_int \<lfloor>m / 60\<rfloor> \<le> m / 60" by (rule of_int_floor_le)
    then have r: "0 \<le> js_rem m 60" unfolding js_rem_nonneg[OF m] by simp
    have "0 \<le> (of_int (Math_floor (m / 60)) * 1.5 + js_rem m 60 * 0.025
        + of_int (extra_controllers s) * extra_controller_rate d * (m / 60)) * 100"
    proof (rule mult_nonneg_nonneg)
      have "0 \<le> (of_int (Math_floor (m / 60)) :: real) * 1.5" using f by simp
      moreover have "0 \<le> js_rem m 60 * 0.025" using r by simp
      ultimately have "0 \<le> (of_int (Math_floor (m / 60)) :: real) * 1.5 + js_rem m 60 * 0.025"
        by (rule add_nonneg_nonneg)
      then show "0 \<le> of_int (Math_floor (m / 60)) * 1.5 + js_rem m 60 * 0.025
        + of_int (extra_controllers s) * extra_controller_rate d * (m / 60)"
        using k by (rule add_nonneg_nonneg)
    qed simp
    then have "0 \<le> (of_int (Math_round ((of_int (Math_floor (m / 60)) * 1.5 + js_rem m 60 * 0.025
        + of_int (extra_controllers s) * extra_controller_rate d * (m / 60)) * 100)) :: real) / 100"
      by (intro divide_nonneg_nonneg of_int_nonneg Math_round_nonneg) simp_all
    then show ?thesis
      using False unfolding m_def by (simp only: calculateSessionCost_timed[OF Some])
  qed
qed

lemma endSession_row:
  fixes c :: page and now :: int and s :: session and device :: device and T :: real
  defines "T \<equiv> calculateSessionCost (isOpenSession c) (expiredSessions c) now
                  (s\<lparr>end_time := Some now\<rparr>) device"
  assumes c: "\<not> isEndingSession c" "activeSessions c deviceId = Some s"
    "find (\<lambda>d. dev_id d = deviceId) (devices c) = Some device"
    and r: "r \<in> set (db_sessions (snd (endSession deviceId now True ok_device (c, db))))"
      "session_id r = session_id s"
  shows "\<exists>r0 \<in> set (db_sessions db). session_id r0 = session_id s
           \<and> r = complete_session now T (discount c / 100 * T) (T - discount c / 100 * T) r0"
proof -
  from r(1) obtain r0 where r0: "r0 \<in> set (db_sessions db)"
    and req: "r = (if session_id r0 = session_id s
                then complete_session now T (discount c / 100 * T) (T - discount c / 100 * T) r0
                else r0)"
    unfolding endSession_sessions[OF c] set_map image_iff T_def by (elim bexE)
  have sid: "session_id r0 = session_id s"
    using req r(2) by (cases "session_id r0 = session_id s") simp_all
  with req r0 show ?thesis by (intro bexI[of _ r0]) simp_all
qed

lemma endSession_amounts:
  assumes c: "\<not> isEndingSession c" "activeSessions c deviceId = Some s"
    "find (\<lambda>d. dev_id d = deviceId) (devices c) = Some device"
    and r: "r \<in> set (db_sessions (snd (endSession deviceId now True ok_device (c, db))))"
      "session_id r = session_id s"
  shows "session_status r = completed"
    and "final_amount r = total_cost r * (1 - discount c / 100)"
    and "0 \<le> discount c \<Longrightarrow> (\<forall>st. start_time s = Some st \<longrightarrow> st \<le> now)
           \<Longrightarrow> 0 \<le> extra_controllers s \<Longrightarrow> 0 \<le> extra_controller_rate device
           \<Longrightarrow> final_amount r \<le> total_cost r"
proof -
  let ?T = "calculateSessionCost (isOpenSession c) (expiredSessions c) now
                  (s\<lparr>end_time := Some now\<rparr>) device"
  from endSession_row[OF c r] obtain r0 where
    req: "r = complete_session now ?T (discount c / 100 * ?T) (?T - discount c / 100 * ?T) r0"
    by (elim bexE conjE)
  show "session_status r = completed" unfolding req by (simp add: complete_session_def)
  have fa: "final_amount r = ?T - discount c / 100 * ?T" and tc: "total_cost r = ?T"
    unfolding req by (simp_all add: complete_session_def)
  show "final_amount r = total_cost r * (1 - discount c / 100)"
    unfolding fa tc by (simp add: algebra_simps)
  assume p: "0 \<le> discount c" and st: "\<forall>st. start_time s = Some st \<longrightarrow> st \<le> now"
    and e: "0 \<le> extra_controllers s" "0 \<le> extra_controller_rate device"
  have "0 \<le> ?T"
    by (rule calculateSessionCost_nonneg) (use st e in \<open>simp_all add: effective_end_Some\<close>)
  then have "0 \<le> discount c / 100 * ?T" using p by simp
  then show "final_amount r \<le> total_cost r" unfolding fa tc by simp
qed

lemma handleCheckout_sales_final:
  "\<forall>r \<in> set (handleCheckout_sales disc cart).
     sale_final_amount r = total_price r * (1 - disc / 100)"
  by (simp add: handleCheckout_sales_def calculateTotal_def Let_def)

lemma handleCheckout_sales_amounts:
  assumes "r \<in> set (handleCheckout_sales disc cart)"
  shows "sale_final_amount r = total_price r * (1 - disc / 100)"
    and "0 \<le> disc \<Longrightarrow> 0 \<le> total_price r \<Longrightarrow> sale_final_amount r \<le> total_price r"
proof -
  show fa: "sale_final_amount r = total_price r * (1 - disc / 100)"
    using handleCheckout_sales_final assms by (rule bspec)
  assume "0 \<le> disc" and "0 \<le> total_price r"
  then have "0 \<le> total_price r * (disc / 100)" by simp
  then show "sale_final_amount r \<le> total_price r" unfolding fa by (simp add: algebra_simps)
qed

text \<open>
  C5, as the code has it. The session row that \<open>endSession\<close> completes stores
  \<open>final_amount = total_cost * (1 - discount / 100)\<close>, and every sale row that the checkout
  submits stores \<open>final_amount = total_price * (1 - discount / 100)\<close>: the product itself,
  which is not rounded to two decimals. For a discount between 0 and 100 the final amount
  is at most the total: of a session whose start is not after the clock and whose
  extra-controller count and rate are not negative, and of a sale row that satisfies the
  constraints of its table.
\<close>

theorem final_amount_is_discounted_total:
  "(\<not> isEndingSession c \<and> activeSessions c deviceId = Some s
      \<and> find (\<lambda>d. dev_id d = deviceId) (devices c) = Some device \<longrightarrow>
     (\<forall>r \<in> set (db_sessions (snd (endSession deviceId now True ok_device (c, db)))).
        session_id r = session_id s \<longrightarrow>
          session_status r = completed
          \<and> final_amount r = total_cost r * (1 - discount c / 100)
          \<and> (0 \<le> discount c \<and> discount c \<le> 100
               \<and> (\<forall>st. start_time s = Some st \<longrightarrow> st \<le> now)
               \<and> 0 \<le> extra_controllers s \<and> 0 \<le> extra_controller_rate device
             \<longrightarrow> final_amount r \<le> total_cost r)))
   \<and> (\<forall>r \<in> set (handleCheckout_sales disc cart).
        sale_final_amount r = total_price r * (1 - disc / 100)
        \<and> (sales_check r \<and> 0 \<le> disc \<and> disc \<le> 100
             \<longrightarrow> sale_final_amount r \<le> total_price r))"
proof (intro conjI impI ballI; (elim conjE)?)
  fix r
  assume c: "\<not> isEndingSession c" "activeSessions c deviceId = Some s"
    "find (\<lambda>d. dev_id d = deviceId) (devices c) = Some device"
    and r: "r \<in> set (db_sessions (snd (endSession deviceId now True ok_device (c, db))))"
      "session_id r = session_id s"
  show "session_status r = completed" by (rule endSession_amounts(1)[OF c r])
  show "final_amount r = total_cost r * (1 - discount c / 100)"
    by (rule endSession_amounts(2)[OF c r])
  assume "0 \<le> discount c" "\<forall>st. start_time s = Some st \<longrightarrow> st \<le> now"
    "0 \<le> extra_controllers s" "0 \<le> extra_controller_rate device"
  then show "final_amount r \<le> total_cost r" by (rule endSession_amounts(3)[OF c r])
next
  fix r assume r: "r \<in> set (handleCheckout_sales disc cart)"
  show "sale_final_amount r = total_price r * (1 - disc / 100)"
    by (rule handleCheckout_sales_amounts(1)[OF r])
  assume "sales_check r" "0 \<le> disc"
  then have "0 \<le> disc" "0 \<le> total_price r" by (simp_all add: sales_check_def)
  then show "sale_final_amount r \<le> total_price r"
    by (rule handleCheckout_sales_amounts(2)[OF r])
qed

theorem final_amount_is_discounted_total_witness:
  "\<not> isEndingSession ex_page
   \<and> activeSessions ex_page ''external-1'' = Some (open_session ''s1'' ''external-1'' 1)
   \<and> find (\<lambda>d. dev_id d = ''external-1'') (devices ex_page) = Some external_device
   \<and> 0 \<le> discount ex_page \<and> discount ex_page \<le> 100
   \<and> map session_status (db_sessions (snd (endSession ''external-1'' 5400000 True True
         (ex_page, ex_storage)))) = [completed]
   \<and> map final_amount (db_sessions (snd (endSession ''external-1'' 5400000 True True
         (ex_page, ex_storage)))) = [263 / 100 * (1 - 10 / 100)]
   \<and> map sale_final_amount (handleCheckout_sales 10 [\<lparr>product = cola, quantity = 3\<rparr>])
       = [3 / 2 * (1 - 10 / 100)]
   \<and> map total_price (handleCheckout_sales 10 [\<lparr>product = cola, quantity = 3\<rparr>]) = [3 / 2]"
  using final_amount_is_discounted_total [where c = ex_page and deviceId = "''external-1''"
      and s = "open_session ''s1'' ''external-1'' 1" and device = external_device
      and now = 5400000 and ok_device = True and db = ex_storage and disc = 10
      and cart = "[\<lparr>product = cola, quantity = 3\<rparr>]"]
  by (simp add: endSession_def example_defs storage_defs cost_defs handleCheckout_sales_def
      calculateTotal_def cola_def)

text \<open>
  The stored final amount is not rounded: ninety open-ended minutes with one extra
  controller cost 2.63; with a discount of 10 percent \<open>endSession\<close> stores 2.367, and the
  rounding of the discounted amount is 2.37. And for a session whose start is ahead of
  the page's clock the total is negative and the discounted amount is above it.
\<close>

theorem stored_final_amount_not_rounded:
  "map total_cost (db_sessions (snd (endSession ''external-1'' 5400000 True True
       (ex_page, ex_storage)))) = [263 / 100]
   \<and> map final_amount (db_sessions (snd (endSession ''external-1'' 5400000 True True
       (ex_page, ex_storage)))) = [2367 / 1000]
   \<and> round2 (263 / 100 * (1 - discount ex_page / 100)) = 237 / 100
   \<and> map total_cost (db_sessions (snd (endSession ''external-1'' (- 5400000) True True
       (ex_page, ex_storage)))) = [- 262 / 100]
   \<and> map final_amount (db_sessions (snd (endSession ''external-1'' (- 5400000) True True
       (ex_page, ex_storage)))) = [- 2358 / 1000]"
  by (simp add: endSession_def example_defs storage_defs cost_defs round2_def)

section \<open>Properties of the daily summary\<close>

lemma sql_sum_total: "sql_coalesce0 (sql_sum (map (\<lambda>r. Some (f r)) xs)) = sum_list (map f xs)"
proof -
  have "List.map_filter (\<lambda>x. x) (map (\<lambda>r. Some (f r)) xs) = map f xs"
    by (induction xs) simp_all
  then show ?thesis by (cases "map f xs") (simp_all add: sql_sum_def sql_coalesce0_def)
qed

lemma sql_eq_Some: "sql_eq a (Some d) \<longleftrightarrow> a = Some d"
  by (cases a) (simp_all add: sql_eq_def)

lemma find_append_None: "find P xs = None \<Longrightarrow> find P (xs @ ys) = find P ys"
  by (induction xs) (simp_all split: if_splits)

lemma find_upsert:
  "\<exists>row. find (\<lambda>r. summary_date r = summary_date new) (upsert_daily_summary new rows) = Some row
     \<and> sessions_revenue row = sessions_revenue new \<and> sales_revenue row = sales_revenue new
     \<and> expenses_total row = expenses_total new \<and> discounts_total row = discounts_total new
     \<and> net_income row = net_income new"
proof (cases "list_ex (\<lambda>r. summary_date r = summary_date new) rows")
  case True
  then show ?thesis
    unfolding upsert_daily_summary_def if_P[OF True]
  proof (induction rows)
    case Nil
    then show ?case by simp
  next
    case (Cons a rows)
    show ?case
    proof (cases "summary_date a = summary_date new")
      case True
      then show ?thesis by simp
    next
      case False
      with Cons.prems have "list_ex (\<lambda>r. summary_date r = summary_date new) rows" by simp
      from Cons.IH[OF this] False show ?thesis by simp
    qed
  qed
next
  case False
  then have "find (\<lambda>r. summary_date r = summary_date new) rows = None"
    by (simp add: find_None_iff list_ex_iff)
  then show ?thesis
    unfolding upsert_daily_summary_def if_not_P[OF False]
    by (simp add: find_append_None)
qed

text \<open>
  C4. After the recomputation for a date the summary row of that date exists and holds:
  as session revenue the sum of \<open>final_amount\<close> over the completed sessions created that
  date, as sales revenue the sum of \<open>final_amount\<close> over the sales created that date, as
  expenses the sum of \<open>amount\<close> over the expenses dated that date, and as net income the
  session revenue plus the sales revenue minus the expenses. The total of discounts is
  not subtracted.
\<close>

theorem daily_summary_revenue_and_net_income:
  "\<exists>row. find (\<lambda>r. summary_date r = date) (db_daily_summaries (calculate_daily_summary date db))
            = Some row
     \<and> sessions_revenue row = sum_list (map final_amount
           (filter (\<lambda>r. sql_date (created_at r) = Some date \<and> session_status r = completed)
              (db_sessions db)))
     \<and> sales_revenue row = sum_list (map sale_final_amount
           (filter (\<lambda>r. sql_date (sale_created_at r) = Some date) (db_sales db)))
     \<and> expenses_total row = sum_list (map amount
           (filter (\<lambda>r. expense_date r = date) (db_expenses db)))
     \<and> net_income row = sessions_revenue row + sales_revenue row - expenses_total row"
proof -
  let ?new = "\<lparr>summary_date = date, sessions_revenue = select_sessions_rev date db,
     sales_revenue = select_sales_rev date db, expenses_total = select_expenses_tot date db,
     discounts_total = select_discounts_tot date db,
     net_income = select_sessions_rev date db + select_sales_rev date db
                  - select_expenses_tot date db\<rparr>"
  have rows: "db_daily_summaries (calculate_daily_summary date db)
      = upsert_daily_summary ?new (db_daily_summaries db)"
    by (simp add: calculate_daily_summary_def Let_def)
  have s1: "select_sessions_rev date db = sum_list (map final_amount
           (filter (\<lambda>r. sql_date (created_at r) = Some date \<and> session_status r = completed)
              (db_sessions db)))"
    unfolding select_sessions_rev_def sql_sum_total sql_eq_Some ..
  have s2: "select_sales_rev date db = sum_list (map sale_final_amount
           (filter (\<lambda>r. sql_date (sale_created_at r) = Some date) (db_sales db)))"
    unfolding select_sales_rev_def sql_sum_total sql_eq_Some ..
  have s3: "select_expenses_tot date db = sum_list (map amount
           (filter (\<lambda>r. expense_date r = date) (db_expenses db)))"
    unfolding select_expenses_tot_def sql_sum_total ..
  from find_upsert[of ?new "db_daily_summaries db"]
  obtain row where "find (\<lambda>r. summary_date r = date) (upsert_daily_summary ?new (db_daily_summaries db)) = Some row"
    and "sessions_revenue row = select_sessions_rev date db"
    and "sales_revenue row = select_sales_rev date db"
    and "expenses_total row = select_expenses_tot date db"
    and "net_income row = select_sessions_rev date db + select_sales_rev date db
                  - select_expenses_tot date db"
    by (elim exE conjE) simp
  then show ?thesis unfolding rows s1 s2 s3 by (intro exI[of _ row]) simp
qed

subsection \<open>The total of discounts\<close>

lemma sql_coalesce0_sum: "sql_coalesce0 (sql_sum xs) = sum_list (List.map_filter (\<lambda>x. x) xs)"
  by (cases "List.map_filter (\<lambda>x. x) xs") (simp_all add: sql_sum_def sql_coalesce0_def)

lemma map_filter_append: "List.map_filter f (xs @ ys) = List.map_filter f xs @ List.map_filter f ys"
  by (simp add: List.map_filter_def)

lemma map_filter_Some: "List.map_filter (\<lambda>x. x) (map (\<lambda>r. Some (f r)) xs) = map f xs"
  by (induction xs) simp_all

lemma map_filter_None: "List.map_filter (\<lambda>x. x) (map (\<lambda>r. None) xs) = []"
  by (induction xs) simp_all

lemma sql_eq_iff: "sql_eq a b \<longleftrightarrow> a \<noteq> None \<and> a = b"
  by (cases a; cases b) (simp_all add: sql_eq_def)

lemma matched_rows:
  "filter (where_date date)
     (map (\<lambda>sess. (Some s, Some sess))
        (filter (\<lambda>sess. sql_eq (sql_date (created_at sess)) (sql_date (sale_created_at s))) sessions))
   = (if sql_date (sale_created_at s) = Some date
      then map (\<lambda>sess. (Some s, Some sess)) (filter (\<lambda>r. sql_date (created_at r) = Some date) sessions)
      else [])"
proof -
  have "filter (\<lambda>sess. sql_eq (sql_date (created_at sess)) (sql_date (sale_created_at s))
                      \<and> where_date date (Some s, Some sess)) sessions
      = (if sql_date (sale_created_at s) = Some date
         then filter (\<lambda>r. sql_date (created_at r) = Some date) sessions else [])"
    by (cases "sale_created_at s")
       (auto simp: where_date_def sql_eq_iff sql_coalesce_def sql_column_def sql_date_def
             filter_empty_conv intro!: filter_cong)
  then show ?thesis
    by (simp add: filter_map comp_def split: if_splits)
qed


lemma filter_concat_map:
  "filter P (concat (map f xs)) = concat (map (\<lambda>x. filter P (f x)) xs)"
  by (induction xs) simp_all

lemma matched_part:
  "filter (where_date date)
     (concat (map (\<lambda>s. map (\<lambda>sess. (Some s, Some sess))
                        (filter (\<lambda>sess. sql_eq (sql_date (created_at sess))
                                               (sql_date (sale_created_at s))) sessions)) sales))
   = concat (map (\<lambda>s. map (\<lambda>sess. (Some s, Some sess))
                         (filter (\<lambda>r. sql_date (created_at r) = Some date) sessions))
               (filter (\<lambda>r. sql_date (sale_created_at r) = Some date) sales))"
  unfolding filter_concat_map matched_rows
  by (induction sales) simp_all

lemma no_match_sale:
  assumes "sql_date (sale_created_at s) = Some date"
  shows "list_ex (\<lambda>sess. sql_eq (sql_date (created_at sess)) (sql_date (sale_created_at s))) sessions
       \<longleftrightarrow> filter (\<lambda>r. sql_date (created_at r) = Some date) sessions \<noteq> []"
  unfolding list_ex_iff sql_eq_iff assms filter_empty_conv by auto

lemma no_match_session:
  assumes "sql_date (created_at x) = Some date"
  shows "list_ex (\<lambda>s. sql_eq (sql_date (created_at x)) (sql_date (sale_created_at s))) sales
       \<longleftrightarrow> filter (\<lambda>r. sql_date (sale_created_at r) = Some date) sales \<noteq> []"
  unfolding list_ex_iff sql_eq_iff assms filter_empty_conv by (auto simp: eq_commute[of "Some date"])

lemma left_part:
  "filter (where_date date)
     (map (\<lambda>s. (Some s, None))
         (filter (\<lambda>s. \<not> list_ex (\<lambda>sess. sql_eq (sql_date (created_at sess))
                                               (sql_date (sale_created_at s))) sessions) sales))
   = (if filter (\<lambda>r. sql_date (created_at r) = Some date) sessions = []
      then map (\<lambda>s. (Some s, None)) (filter (\<lambda>r. sql_date (sale_created_at r) = Some date) sales)
      else [])"
proof -
  have w: "where_date date (Some s, None) \<longleftrightarrow> sql_date (sale_created_at s) = Some date" for s
    by (cases "sale_created_at s")
       (simp_all add: where_date_def sql_eq_iff sql_coalesce_def sql_column_def sql_date_def)
  have "filter (\<lambda>s. \<not> list_ex (\<lambda>sess. sql_eq (sql_date (created_at sess))
                                               (sql_date (sale_created_at s))) sessions
                   \<and> where_date date (Some s, None)) sales
      = (if filter (\<lambda>r. sql_date (created_at r) = Some date) sessions = []
         then filter (\<lambda>r. sql_date (sale_created_at r) = Some date) sales else [])"
    unfolding w using no_match_sale[of _ date sessions]
    by (auto simp: filter_empty_conv intro!: filter_cong)
  then show ?thesis by (simp add: filter_map comp_def split: if_splits)
qed

lemma right_part:
  "filter (where_date date)
     (map (\<lambda>sess. (None, Some sess))
         (filter (\<lambda>sess. \<not> list_ex (\<lambda>s. sql_eq (sql_date (created_at sess))
                                               (sql_date (sale_created_at s))) sales) sessions))
   = (if filter (\<lambda>r. sql_date (sale_created_at r) = Some date) sales = []
      then map (\<lambda>sess. (None, Some sess)) (filter (\<lambda>r. sql_date (created_at r) = Some date) sessions)
      else [])"
proof -
  have w: "where_date date (None, Some x) \<longleftrightarrow> sql_date (created_at x) = Some date" for x
    by (cases "created_at x")
       (simp_all add: where_date_def sql_eq_iff sql_coalesce_def sql_column_def sql_date_def)
  have "filter (\<lambda>x. \<not> list_ex (\<lambda>s. sql_eq (sql_date (created_at x))
                                               (sql_date (sale_created_at s))) sales
                   \<and> where_date date (None, Some x)) sessions
      = (if filter (\<lambda>r. sql_date (sale_created_at r) = Some date) sales = []
         then filter (\<lambda>r. sql_date (created_at r) = Some date) sessions else [])"
    unfolding w using no_match_session[of _ date sales]
    by (auto simp: filter_empty_conv intro!: filter_cong)
  then show ?thesis by (simp add: filter_map comp_def split: if_splits)
qed


lemma sum_matched_sales:
  "sum_list (List.map_filter (\<lambda>x. x)
      (map (\<lambda>(s, sess). map_option f s)
         (concat (map (\<lambda>s. map (\<lambda>sess. (Some s, Some sess)) X) S))))
   = of_nat (length X) * sum_list (map f S)"
proof (induction S)
  case Nil
  then show ?case by simp
next
  case (Cons s S)
  have "List.map_filter (\<lambda>x. x) (map (\<lambda>(s, sess). map_option f s)
          (map (\<lambda>sess. (Some s, Some sess)) X)) = map (\<lambda>x. f s) X"
    by (induction X) simp_all
  moreover have "sum_list (map (\<lambda>x. f s) X) = of_nat (length X) * f s"
    by (induction X) (simp_all add: algebra_simps)
  ultimately show ?case using Cons
    by (simp add: map_filter_append algebra_simps)
qed

lemma sum_matched_sessions:
  "sum_list (List.map_filter (\<lambda>x. x)
      (map (\<lambda>(s, sess). map_option g sess)
         (concat (map (\<lambda>s. map (\<lambda>sess. (Some s, Some sess)) X) S))))
   = of_nat (length S) * sum_list (map g X)"
proof (induction S)
  case Nil
  then show ?case by simp
next
  case (Cons s S)
  have "List.map_filter (\<lambda>x. x) (map (\<lambda>(s, sess). map_option g sess)
          (map (\<lambda>sess. (Some s, Some sess)) X)) = map g X"
    by (induction X) simp_all
  then show ?case using Cons
    by (simp add: map_filter_append algebra_simps)
qed

lemma sum_left_rows:
  "List.map_filter (\<lambda>x. x) (map ((\<lambda>(s, sess). map_option f s) \<circ> (\<lambda>s. (Some s, None))) S)
     = map f S"
  "List.map_filter (\<lambda>x. x) (map ((\<lambda>(s, sess). map_option g sess) \<circ> (\<lambda>s. (Some s, None))) S)
     = []"
  by (induction S) simp_all

lemma sum_right_rows:
  "List.map_filter (\<lambda>x. x) (map ((\<lambda>(s, sess). map_option f s) \<circ> (\<lambda>x. (None, Some x))) X)
     = []"
  "List.map_filter (\<lambda>x. x) (map ((\<lambda>(s, sess). map_option g sess) \<circ> (\<lambda>x. (None, Some x))) X)
     = map g X"
  by (induction X) simp_all

text \<open>
  What the discount query computes: the discounts of the sales of the date, counted once
  per session of the date (once if there is none), plus the discounts of the sessions of
  the date, counted once per sale of the date (once if there is none).
\<close>

lemma select_discounts_tot_formula:
  "select_discounts_tot date db =
     (if on_date_sessions date db = [] then 1 else of_nat (length (on_date_sessions date db)))
       * sum_list (map (\<lambda>r. total_price r - sale_final_amount r) (on_date_sales date db))
     + (if on_date_sales date db = [] then 1 else of_nat (length (on_date_sales date db)))
       * sum_list (map (\<lambda>r. total_cost r - final_amount r) (on_date_sessions date db))"
proof -
  let ?S = "on_date_sales date db" and ?X = "on_date_sessions date db"
  have joined: "filter (where_date date) (full_outer_join (db_sales db) (db_sessions db))
      = concat (map (\<lambda>s. map (\<lambda>sess. (Some s, Some sess)) ?X) ?S)
        @ (if ?X = [] then map (\<lambda>s. (Some s, None)) ?S else [])
        @ (if ?S = [] then map (\<lambda>sess. (None, Some sess)) ?X else [])"
    unfolding full_outer_join_def filter_append matched_part left_part right_part
      on_date_sales_def on_date_sessions_def ..
  show ?thesis
    unfolding select_discounts_tot_def Let_def joined
      sql_coalesce0_sum map_append map_filter_append sum_list_append
    by (simp add: sum_matched_sales sum_matched_sessions sum_left_rows sum_right_rows)
qed

text \<open>With at most one sale and at most one session on the date the query gives the
  specification's total.\<close>

lemma select_discounts_tot_single:
  assumes "length (on_date_sales date db) \<le> 1" and "length (on_date_sessions date db) \<le> 1"
  shows "select_discounts_tot date db = spec_discounts_total date db"
proof -
  have s: "(if on_date_sales date db = [] then 1 else of_nat (length (on_date_sales date db)))
      = (1::real)" using assms(1) by (cases "on_date_sales date db") simp_all
  have x: "(if on_date_sessions date db = [] then 1
            else of_nat (length (on_date_sessions date db))) = (1::real)"
    using assms(2) by (cases "on_date_sessions date db") simp_all
  show ?thesis
    unfolding select_discounts_tot_formula s x spec_discounts_total_def
      on_date_sales_def[symmetric] on_date_sessions_def[symmetric] by simp
qed

text \<open>
  C3. The specification sums the discount of every sale and of every session created on
  the date once. The query sums over the rows of the full outer join on the date, where a
  sale appears once per session of the date and a session once per sale of the date: for
  two sales discounted by 1 each and one session discounted by 2 on the same day the
  summary stores 6, where the specification's sum is 4.
\<close>

theorem discounts_total_counts_rows_of_join:
  "map discounts_total (db_daily_summaries (calculate_daily_summary 0 busy_day)) = [6]
   \<and> spec_discounts_total 0 busy_day = 4"
  by (simp add: calculate_daily_summary_def busy_day_def discounted_sale_def open_session_def
      free_device_def external_device_def full_outer_join_def select_sessions_rev_def
      select_sales_rev_def select_expenses_tot_def select_discounts_tot_def sql_eq_def
      sql_date_def sql_sum_def sql_coalesce_def sql_coalesce0_def sql_column_def where_date_def
      upsert_daily_summary_def spec_discounts_total_def)

end
